theory Spec2Isabelle
  imports Main
begin

section \<open>Strings and exceptions\<close>

text \<open>
  A Python \<^verbatim>\<open>str\<close> is a sequence of Unicode code points; it is modelled as a list of
  natural numbers, one per code point. Dictionary keys that are identifiers of the program
  (\<^verbatim>\<open>'username'\<close>, \<^verbatim>\<open>'token'\<close>, ...) are Isabelle string literals.
\<close>

type_synonym pystr = "nat list"

text \<open>The field errors of a rejected serializer: field name and messages.\<close>

type_synonym errors = "(string \<times> pystr list) list"

text \<open>
  The exceptions that leave a view. \<open>ValidationError\<close> is Django's
  (\<^verbatim>\<open>django.core.exceptions\<close>, message and the \<^verbatim>\<open>params['value']\<close>),
  \<open>SerializerError\<close> is what \<^verbatim>\<open>is_valid(raise_exception=True)\<close> raises,
  \<open>Http404\<close> is raised by \<^verbatim>\<open>get_object_or_404\<close>, \<open>AttributeError\<close> by a call of a
  method that the object does not have, the others by the ORM and by the mail transport.
\<close>

datatype exn =
    ValidationError pystr pystr
  | SerializerError errors
  | Http404
  | DoesNotExist
  | MultipleObjectsReturned
  | IntegrityError
  | SMTPException
  | AttributeError

section \<open>reviews/validators.py\<close>

subsection \<open>The fragment of \<^verbatim>\<open>re\<close> used by the pattern\<close>

text \<open>
  The pattern \<^verbatim>\<open>^[\w.@+-]+\Z\<close> parses to three nodes: the anchor \<^verbatim>\<open>^\<close>, a greedy
  repetition (at least once) of a character set, and the anchor \<^verbatim>\<open>\Z\<close>. An item of a
  character set is the category \<^verbatim>\<open>\w\<close> or a literal code point.
\<close>

datatype cset_item = Category_word | Literal nat

datatype re_node = At_beginning | At_end_string | Max_repeat_in "cset_item list"

text \<open>
  For a \<^verbatim>\<open>str\<close> pattern \<^verbatim>\<open>\w\<close> matches the alphanumeric code points of the Unicode
  database and the underscore. The database is the parameter \<open>isalnum\<close>.
\<close>

fun item_matches :: "(nat \<Rightarrow> bool) \<Rightarrow> cset_item \<Rightarrow> nat \<Rightarrow> bool" where
  "item_matches isalnum Category_word c = (isalnum c \<or> c = 95)"
| "item_matches isalnum (Literal l) c = (c = l)"

definition in_cset :: "(nat \<Rightarrow> bool) \<Rightarrow> cset_item list \<Rightarrow> nat \<Rightarrow> bool" where
  "in_cset isalnum items c = list_ex (\<lambda>i. item_matches isalnum i c) items"

text \<open>
  \<open>match_here isalnum p at_start s\<close>: the nodes \<open>p\<close> match a prefix of the rest \<open>s\<close> of
  the subject; \<open>at_start\<close> says that no character of the subject lies before \<open>s\<close>.
  The repetition is greedy and backtracks: it tries the longest run first, then shorter
  ones, down to one character.
\<close>

fun match_here :: "(nat \<Rightarrow> bool) \<Rightarrow> re_node list \<Rightarrow> bool \<Rightarrow> pystr \<Rightarrow> bool" where
  "match_here isalnum [] at_start s = True"
| "match_here isalnum (At_beginning # p) at_start s =
     (at_start \<and> match_here isalnum p at_start s)"
| "match_here isalnum (At_end_string # p) at_start s =
     (s = [] \<and> match_here isalnum p at_start s)"
| "match_here isalnum (Max_repeat_in items # p) at_start s =
     list_ex (\<lambda>k. match_here isalnum p False (drop k s))
       (rev [1 ..< Suc (length (takeWhile (in_cset isalnum items) s))])"

text \<open>\<^verbatim>\<open>re.search(p, s) is not None\<close>: the pattern matches at some position of \<open>s\<close>.\<close>

definition re_search :: "(nat \<Rightarrow> bool) \<Rightarrow> re_node list \<Rightarrow> pystr \<Rightarrow> bool" where
  "re_search isalnum p s =
     list_ex (\<lambda>i. match_here isalnum p (i = 0) (drop i s)) [0 ..< Suc (length s)]"

text \<open>\<^verbatim>\<open>r'^[\w.@+-]+\Z'\<close>; the literals are \<^verbatim>\<open>.\<close>, \<^verbatim>\<open>@\<close>, \<^verbatim>\<open>+\<close> and \<^verbatim>\<open>-\<close>.\<close>

definition username_cset :: "cset_item list" where
  "username_cset = [Category_word, Literal 46, Literal 64, Literal 43, Literal 45]"

definition username_pattern :: "re_node list" where
  "username_pattern = [At_beginning, Max_repeat_in username_cset, At_end_string]"

subsection \<open>\<^verbatim>\<open>validate_username\<close>\<close>

text \<open>The two messages; the second one is an f-string around the value.\<close>

definition msg_username_me :: pystr where
  "msg_username_me =
     [1048, 1084, 1103, 32, 1087, 1086, 1083, 1100, 1079, 1086, 1074, 1072, 1090, 1077,
      1083, 1103, 32, 1085, 1077, 32, 1084, 1086, 1078, 1077, 1090, 32, 1073, 1099, 1090,
      1100, 32, 60, 109, 101, 62, 46]"

definition msg_username_chars :: "pystr \<Rightarrow> pystr" where
  "msg_username_chars v =
     [1053, 1077, 1076, 1086, 1087, 1091, 1089, 1090, 1080, 1084, 1099, 1077, 32, 1089,
      1080, 1084, 1074, 1086, 1083, 1099, 32, 60] @ v @
     [62, 32, 1074, 32, 117, 115, 101, 114, 110, 97, 109, 101, 46]"

text \<open>\<^verbatim>\<open>'me'\<close>\<close>

definition str_me :: pystr where
  "str_me = [109, 101]"

definition validate_username :: "(nat \<Rightarrow> bool) \<Rightarrow> pystr \<Rightarrow> exn + unit" where
  "validate_username isalnum v =
     (if v = str_me then Inl (ValidationError msg_username_me v)
      else if \<not> re_search isalnum username_pattern v
        then Inl (ValidationError (msg_username_chars v) v)
      else Inr ())"

section \<open>The stored records\<close>

text \<open>
  Modelled from the spec: \<^verbatim>\<open>reviews/models.py\<close> is not among the sources. The fields of
  a user (username, email, role, bio), the default role \<open>user\<close> and the uniqueness of
  \<open>username\<close> and of \<open>email\<close> are those of the spec's data model; \<open>pk\<close> is the primary
  key every Django model has.
\<close>

datatype role = Role_anonymous | Role_user | Role_moderator | Role_admin

record user =
  pk :: nat
  username :: pystr
  email :: pystr
  role :: role
  bio :: pystr

text \<open>
  \<^verbatim>\<open>Model.objects.get(...)\<close> over the rows of a table: the one row that satisfies the
  lookup, \<^verbatim>\<open>DoesNotExist\<close> when there is none, \<^verbatim>\<open>MultipleObjectsReturned\<close> when
  there are several.
\<close>

definition objects_get :: "('a \<Rightarrow> bool) \<Rightarrow> 'a list \<Rightarrow> exn + 'a" where
  "objects_get p rows =
     (case filter p rows of
        [] \<Rightarrow> Inl DoesNotExist
      | [x] \<Rightarrow> Inr x
      | _ \<Rightarrow> Inl MultipleObjectsReturned)"

text \<open>\<^verbatim>\<open>get_object_or_404\<close> turns \<^verbatim>\<open>DoesNotExist\<close>, and nothing else, into a 404.\<close>

definition get_object_or_404 :: "('a \<Rightarrow> bool) \<Rightarrow> 'a list \<Rightarrow> exn + 'a" where
  "get_object_or_404 p rows =
     (case objects_get p rows of
        Inl DoesNotExist \<Rightarrow> Inl Http404
      | Inl e \<Rightarrow> Inl e
      | Inr x \<Rightarrow> Inr x)"

definition new_pk :: "user list \<Rightarrow> nat" where
  "new_pk rows = Suc (fold max (map pk rows) 0)"

text \<open>
  \<^verbatim>\<open>User.objects.create(username=u, email=e)\<close>: the insert fails with
  \<^verbatim>\<open>IntegrityError\<close> when a row already has the username or the email.
\<close>

definition objects_create :: "user list \<Rightarrow> pystr \<Rightarrow> pystr \<Rightarrow> exn + user \<times> user list" where
  "objects_create rows u e =
     (if list_ex (\<lambda>x. username x = u \<or> email x = e) rows then Inl IntegrityError
      else let x = \<lparr>pk = new_pk rows, username = u, email = e, role = Role_user, bio = []\<rparr>
           in Inr (x, rows @ [x]))"

text \<open>
  \<^verbatim>\<open>User.objects.get_or_create(username=u, email=e)\<close>: look the pair up; when it is
  absent, create it; when the insert fails, look it up once more and re-raise the
  \<^verbatim>\<open>IntegrityError\<close> if it is still absent. The result is the row, the \<^verbatim>\<open>created\<close>
  flag and the new table.
\<close>

definition get_or_create ::
  "user list \<Rightarrow> pystr \<Rightarrow> pystr \<Rightarrow> exn + (user \<times> bool) \<times> user list" where
  "get_or_create rows u e =
     (case objects_get (\<lambda>x. username x = u \<and> email x = e) rows of
        Inr x \<Rightarrow> Inr ((x, False), rows)
      | Inl DoesNotExist \<Rightarrow>
          (case objects_create rows u e of
             Inr (x, rows') \<Rightarrow> Inr ((x, True), rows')
           | Inl IntegrityError \<Rightarrow>
               (case objects_get (\<lambda>x. username x = u \<and> email x = e) rows of
                  Inr x \<Rightarrow> Inr ((x, False), rows)
                | Inl DoesNotExist \<Rightarrow> Inl IntegrityError
                | Inl err \<Rightarrow> Inl err)
           | Inl err \<Rightarrow> Inl err)
      | Inl err \<Rightarrow> Inl err)"

text \<open>
  \<^verbatim>\<open>instance.save()\<close> of a user: the row with the instance's primary key is rewritten
  (inserted when there is none); a username or an email that another row holds makes
  it fail.
\<close>

definition save_user :: "user list \<Rightarrow> user \<Rightarrow> exn + user list" where
  "save_user rows inst =
     (if list_ex (\<lambda>x. pk x \<noteq> pk inst \<and> (username x = username inst \<or> email x = email inst)) rows
        then Inl IntegrityError
      else if list_ex (\<lambda>x. pk x = pk inst) rows
        then Inr (map (\<lambda>x. if pk x = pk inst then inst else x) rows)
      else Inr (rows @ [inst]))"

section \<open>The world of the account views\<close>

record email_data =
  email_subject :: pystr
  email_body :: pystr
  to_email :: pystr

record email_message =
  msg_subject :: pystr
  msg_body :: pystr
  msg_to :: "pystr list"

text \<open>The user table and the messages the mail transport has accepted.\<close>

record world =
  users :: "user list"
  outbox :: "email_message list"

record 'b response =
  status_code :: nat
  data :: 'b

section \<open>api/views.py: signup\<close>

text \<open>
  \<^verbatim>\<open>APISignup.send_email\<close>: build the message and send it. The transport is the
  parameter \<open>transport\<close>; a message it refuses raises, as \<^verbatim>\<open>email.send()\<close> does.
\<close>

definition send_email ::
  "(email_message \<Rightarrow> bool) \<Rightarrow> email_data \<Rightarrow> email_message list \<Rightarrow> exn + email_message list" where
  "send_email transport d out =
     (let email = \<lparr>msg_subject = email_subject d, msg_body = email_body d,
                   msg_to = [to_email d]\<rparr>
      in if transport email then Inr (out @ [email]) else Inl SMTPException)"

text \<open>The validated data of the signup serializer: the two identity fields.\<close>

record signup_data =
  su_username :: pystr
  su_email :: pystr

text \<open>\<^verbatim>\<open>serializer.data\<close>: the representation of the validated fields.\<close>

definition signup_serializer_data :: "signup_data \<Rightarrow> (string \<times> pystr) list" where
  "signup_serializer_data vd = [(''username'', su_username vd), (''email'', su_email vd)]"

text \<open>The pieces of the f-string of the mail body, and the subject.\<close>

definition str_hello :: pystr where
  "str_hello = [1055, 1088, 1080, 1074, 1077, 1090, 44, 32]"

definition str_code_label :: pystr where
  "str_code_label =
     [10, 1050, 1086, 1076, 32, 1087, 1086, 1076, 1090, 1074, 1077, 1088, 1078, 1076,
      1077, 1085, 1080, 1103, 58, 32]"

definition str_subject :: pystr where
  "str_subject =
     [1050, 1086, 1076, 32, 1087, 1086, 1076, 1090, 1074, 1077, 1088, 1078, 1076, 1077,
      1085, 1080, 1103]"

definition signup_email_body :: "user \<Rightarrow> pystr \<Rightarrow> pystr" where
  "signup_email_body u confirmation_code =
     str_hello @ username u @ [46] @ str_code_label @ confirmation_code"

text \<open>
  The message that \<open>send_email\<close> builds from the data \<^verbatim>\<open>APISignup.post\<close> gives it
  for the user \<open>u\<close> and the code.
\<close>

definition confirmation_mail :: "user \<Rightarrow> pystr \<Rightarrow> email_message" where
  "confirmation_mail u confirmation_code =
     \<lparr>msg_subject = str_subject, msg_body = signup_email_body u confirmation_code,
      msg_to = [email u]\<rparr>"

text \<open>
  \<^verbatim>\<open>APISignup.post\<close>. The serializer's validation (\<^verbatim>\<open>api/serializers.py\<close> is not among
  the sources), the token generator and the mail transport are parameters; the
  validation may consult the user table.
\<close>

definition APISignup_post ::
  "(user list \<Rightarrow> 'd \<Rightarrow> errors + signup_data) \<Rightarrow> (user \<Rightarrow> pystr) \<Rightarrow> (email_message \<Rightarrow> bool) \<Rightarrow>
     'd \<Rightarrow> world \<Rightarrow> (exn + (string \<times> pystr) list response) \<times> world" where
  "APISignup_post is_valid make_token transport request_data w =
     (case is_valid (users w) request_data of
        Inl errs \<Rightarrow> (Inl (SerializerError errs), w)
      | Inr vd \<Rightarrow>
          (case get_or_create (users w) (su_username vd) (su_email vd) of
             Inl e \<Rightarrow> (Inl e, w)
           | Inr ((u, _), rows) \<Rightarrow>
               (let w1 = w\<lparr>users := rows\<rparr>;
                    confirmation_code = make_token u;
                    d = \<lparr>email_subject = str_subject,
                         email_body = signup_email_body u confirmation_code,
                         to_email = email u\<rparr>
                in case send_email transport d (outbox w1) of
                     Inl e \<Rightarrow> (Inl e, w1)
                   | Inr out \<Rightarrow>
                       (Inr \<lparr>status_code = 200, data = signup_serializer_data vd\<rparr>,
                        w1\<lparr>outbox := out\<rparr>))))"

text \<open>
  Modelled from the spec: \<^verbatim>\<open>SignUpSerializer\<close> of \<^verbatim>\<open>api/serializers.py\<close> is missing.
  The caller submits \<^verbatim>\<open>{username, email}\<close>; the username is validated against the
  pattern and the reserved word, and a violation names the offending field.
\<close>

definition msg_required :: pystr where
  "msg_required = [114, 101, 113, 117, 105, 114, 101, 100]"

definition SignUpSerializer_is_valid ::
  "(nat \<Rightarrow> bool) \<Rightarrow> user list \<Rightarrow> (string \<rightharpoonup> pystr) \<Rightarrow> errors + signup_data" where
  "SignUpSerializer_is_valid isalnum rows request_data =
     (case request_data ''username'' of
        None \<Rightarrow> Inl [(''username'', [msg_required])]
      | Some u \<Rightarrow>
          (case request_data ''email'' of
             None \<Rightarrow> Inl [(''email'', [msg_required])]
           | Some e \<Rightarrow>
               (case validate_username isalnum u of
                  Inl (ValidationError m _) \<Rightarrow> Inl [(''username'', [m])]
                | Inl _ \<Rightarrow> Inl [(''username'', [])]
                | Inr _ \<Rightarrow> Inr \<lparr>su_username = u, su_email = e\<rparr>)))"

section \<open>api/views.py: token exchange\<close>

record token_data =
  tk_username :: pystr
  tk_confirmation_code :: pystr

definition msg_user_not_found :: pystr where
  "msg_user_not_found =
     [1055, 1086, 1083, 1100, 1079, 1086, 1074, 1072, 1090, 1077, 1083, 1100, 32, 1085,
      1077, 32, 1085, 1072, 1081, 1076, 1077, 1085]"

definition msg_bad_code :: pystr where
  "msg_bad_code =
     [1053, 1077, 1074, 1077, 1088, 1085, 1099, 1081, 32, 1082, 1086, 1076, 32, 1087,
      1086, 1076, 1090, 1074, 1077, 1088, 1078, 1076, 1077, 1085, 1080, 1103, 33]"

text \<open>
  \<^verbatim>\<open>APIGetToken.post\<close>. The serializer's validation, \<^verbatim>\<open>check_token\<close> of the token
  generator and \<^verbatim>\<open>str(RefreshToken.for_user(user).access_token)\<close> are parameters. Only
  \<^verbatim>\<open>DoesNotExist\<close> is caught. The view writes nothing: the world it returns is the
  one it was given.
\<close>

definition APIGetToken_post ::
  "(user list \<Rightarrow> 'd \<Rightarrow> errors + token_data) \<Rightarrow> (user \<Rightarrow> pystr \<Rightarrow> bool) \<Rightarrow> (user \<Rightarrow> pystr) \<Rightarrow>
     'd \<Rightarrow> world \<Rightarrow> (exn + (string \<times> pystr) list response) \<times> world" where
  "APIGetToken_post is_valid check_token for_user request_data w =
     (case is_valid (users w) request_data of
        Inl errs \<Rightarrow> (Inl (SerializerError errs), w)
      | Inr d \<Rightarrow>
          (case objects_get (\<lambda>x. username x = tk_username d) (users w) of
             Inl DoesNotExist \<Rightarrow>
               (Inr \<lparr>status_code = 404, data = [(''username'', msg_user_not_found)]\<rparr>, w)
           | Inl e \<Rightarrow> (Inl e, w)
           | Inr u \<Rightarrow>
               if check_token u (tk_confirmation_code d)
               then (Inr \<lparr>status_code = 200, data = [(''token'', for_user u)]\<rparr>, w)
               else (Inr \<lparr>status_code = 400,
                          data = [(''confirmation_code'', msg_bad_code)]\<rparr>, w)))"

text \<open>A response that carries a token: it has the key \<^verbatim>\<open>'token'\<close>.\<close>

definition returns_token :: "exn + (string \<times> pystr) list response \<Rightarrow> bool" where
  "returns_token r =
     (case r of Inl _ \<Rightarrow> False | Inr resp \<Rightarrow> map_of (data resp) ''token'' \<noteq> None)"

section \<open>api/views.py: the caller's own record\<close>

text \<open>
  The validated data of a partial update of a user: each field is present or absent,
  as a key of the dictionary \<^verbatim>\<open>validated_data\<close> is.
\<close>

record user_patch =
  p_username :: "pystr option"
  p_email :: "pystr option"
  p_bio :: "pystr option"
  p_role :: "role option"

text \<open>\<^verbatim>\<open>ModelSerializer.update\<close>: \<^verbatim>\<open>setattr\<close> for every key of the validated data.\<close>

definition set_attrs :: "user \<Rightarrow> user_patch \<Rightarrow> user" where
  "set_attrs inst vd =
     inst\<lparr>username := (case p_username vd of None \<Rightarrow> username inst | Some v \<Rightarrow> v),
          email := (case p_email vd of None \<Rightarrow> email inst | Some v \<Rightarrow> v),
          bio := (case p_bio vd of None \<Rightarrow> bio inst | Some v \<Rightarrow> v),
          role := (case p_role vd of None \<Rightarrow> role inst | Some v \<Rightarrow> v)\<rparr>"

datatype http_method = GET | PATCH

text \<open>
  \<^verbatim>\<open>UserViewSet.get_current_user_info\<close>; \<open>request_user\<close> is \<^verbatim>\<open>request.user\<close>, the
  instance that authentication loaded. \<^verbatim>\<open>serializer.save(role=request.user.role)\<close>
  merges the keyword over the validated data (\<^verbatim>\<open>{**validated_data, **kwargs}\<close>),
  updates the instance and saves it; the response is the representation of the
  saved instance.
\<close>

definition get_current_user_info ::
  "(user list \<Rightarrow> user \<Rightarrow> 'd \<Rightarrow> errors + user_patch) \<Rightarrow> http_method \<Rightarrow> user \<Rightarrow> 'd \<Rightarrow> world \<Rightarrow>
     (exn + user response) \<times> world" where
  "get_current_user_info is_valid method request_user request_data w =
     (if method = GET then
        (case get_object_or_404 (\<lambda>x. username x = username request_user) (users w) of
           Inl e \<Rightarrow> (Inl e, w)
         | Inr u \<Rightarrow> (Inr \<lparr>status_code = 200, data = u\<rparr>, w))
      else
        (case is_valid (users w) request_user request_data of
           Inl errs \<Rightarrow> (Inl (SerializerError errs), w)
         | Inr vd \<Rightarrow>
             (let validated_data = vd\<lparr>p_role := Some (role request_user)\<rparr>;
                  inst = set_attrs request_user validated_data
              in case save_user (users w) inst of
                   Inl e \<Rightarrow> (Inl e, w)
                 | Inr rows \<Rightarrow>
                     (Inr \<lparr>status_code = 200, data = inst\<rparr>, w\<lparr>users := rows\<rparr>))))"

text \<open>The caller's row of the table.\<close>

definition row_of :: "nat \<Rightarrow> user list \<Rightarrow> user option" where
  "row_of k rows = find (\<lambda>x. pk x = k) rows"

section \<open>api/views.py: titles\<close>

text \<open>
  Modelled from the spec: \<^verbatim>\<open>reviews/models.py\<close> is not among the sources. Categories
  and genres are slug-keyed, a title has one category and a set of genres.
\<close>

record category =
  cat_id :: nat
  cat_name :: pystr
  cat_slug :: pystr

record genre =
  genre_id :: nat
  genre_name :: pystr
  genre_slug :: pystr

record title =
  title_id :: nat
  title_name :: pystr
  title_year :: int
  title_description :: pystr
  title_category :: "nat option"
  title_genre :: "nat list"

record catalog =
  categories :: "category list"
  genres :: "genre list"
  titles :: "title list"

text \<open>
  \<^verbatim>\<open>request.data\<close> of the title views. For a form-encoded or multipart body it is a
  \<^verbatim>\<open>QueryDict\<close>: every key has a list of values (empty when the key is absent),
  \<^verbatim>\<open>get\<close> gives the last value or \<^verbatim>\<open>None\<close>, \<^verbatim>\<open>getlist\<close> gives the list. For a JSON
  body it is a plain \<^verbatim>\<open>dict\<close>, whose values are strings or arrays of strings here:
  \<^verbatim>\<open>get\<close> gives the value or \<^verbatim>\<open>None\<close>, and a \<^verbatim>\<open>dict\<close> has no \<^verbatim>\<open>getlist\<close>, so the
  call raises \<^verbatim>\<open>AttributeError\<close>.
\<close>

type_synonym querydict = "string \<Rightarrow> pystr list"

datatype jvalue = JString pystr | JArray "pystr list"

datatype request_body = QueryDict querydict | Dict "string \<rightharpoonup> jvalue"

definition qd_get :: "querydict \<Rightarrow> string \<Rightarrow> pystr option" where
  "qd_get d k = (if d k = [] then None else Some (last (d k)))"

definition qd_getlist :: "querydict \<Rightarrow> string \<Rightarrow> pystr list" where
  "qd_getlist d k = d k"

definition data_get :: "request_body \<Rightarrow> string \<Rightarrow> jvalue option" where
  "data_get b k =
     (case b of
        QueryDict d \<Rightarrow> map_option JString (qd_get d k)
      | Dict d \<Rightarrow> d k)"

definition data_getlist :: "request_body \<Rightarrow> string \<Rightarrow> exn + pystr list" where
  "data_getlist b k =
     (case b of
        QueryDict d \<Rightarrow> Inr (qd_getlist d k)
      | Dict d \<Rightarrow> Inl AttributeError)"

text \<open>
  The validated data of a title serializer, as a dictionary with optional keys; the
  keywords of \<^verbatim>\<open>save\<close> are merged over it.
\<close>

record title_fields =
  tf_name :: "pystr option"
  tf_year :: "int option"
  tf_description :: "pystr option"
  tf_category :: "nat option"
  tf_genre :: "nat list option"

record title_serializer =
  instance_obj :: "title option"
  validated_data :: title_fields

definition new_title_id :: "title list \<Rightarrow> nat" where
  "new_title_id rows = Suc (fold max (map title_id rows) 0)"

text \<open>
  \<^verbatim>\<open>serializer.save(category=category, genre=genre)\<close>: the keywords override the
  validated data; with an instance the row is updated (attributes set, the genre
  relation replaced by \<^verbatim>\<open>set\<close>), without one a row is created. A created title needs
  its name and year.
\<close>

definition serializer_save ::
  "title_serializer \<Rightarrow> category \<Rightarrow> genre list \<Rightarrow> title list \<Rightarrow> exn + title \<times> title list" where
  "serializer_save serializer cat gs rows =
     (let vd = (validated_data serializer)
                 \<lparr>tf_category := Some (cat_id cat), tf_genre := Some (map genre_id gs)\<rparr>
      in case instance_obj serializer of
           Some t \<Rightarrow>
             (let t' = t\<lparr>title_name := (case tf_name vd of None \<Rightarrow> title_name t | Some v \<Rightarrow> v),
                         title_year := (case tf_year vd of None \<Rightarrow> title_year t | Some v \<Rightarrow> v),
                         title_description :=
                           (case tf_description vd of None \<Rightarrow> title_description t | Some v \<Rightarrow> v),
                         title_category :=
                           (case tf_category vd of None \<Rightarrow> title_category t | Some v \<Rightarrow> Some v),
                         title_genre :=
                           (case tf_genre vd of None \<Rightarrow> title_genre t | Some v \<Rightarrow> v)\<rparr>
              in Inr (t', map (\<lambda>x. if title_id x = title_id t then t' else x) rows))
         | None \<Rightarrow>
             (case (tf_name vd, tf_year vd) of
                (Some n, Some y) \<Rightarrow>
                  (let t' = \<lparr>title_id = new_title_id rows, title_name = n, title_year = y,
                             title_description =
                               (case tf_description vd of None \<Rightarrow> [] | Some v \<Rightarrow> v),
                             title_category = tf_category vd,
                             title_genre = (case tf_genre vd of None \<Rightarrow> [] | Some v \<Rightarrow> v)\<rparr>
                   in Inr (t', rows @ [t']))
              | _ \<Rightarrow> Inl IntegrityError))"

text \<open>
  \<^verbatim>\<open>TitleViewSet.perform_create\<close>. The category is looked up first, then the genre
  list is read, then the serializer saves. A lookup \<^verbatim>\<open>slug=None\<close> matches no row,
  since every category has a slug; a value that is not a string matches none either.
\<close>

definition perform_create ::
  "request_body \<Rightarrow> title_serializer \<Rightarrow> catalog \<Rightarrow> exn + title \<times> catalog" where
  "perform_create request_data serializer c =
     (case get_object_or_404
             (\<lambda>x. Some (JString (cat_slug x)) = data_get request_data ''category'')
             (categories c) of
        Inl e \<Rightarrow> Inl e
      | Inr cat \<Rightarrow>
          (case data_getlist request_data ''genre'' of
             Inl e \<Rightarrow> Inl e
           | Inr slugs \<Rightarrow>
               (let gs = filter (\<lambda>g. genre_slug g \<in> set slugs) (genres c)
                in case serializer_save serializer cat gs (titles c) of
                     Inl e \<Rightarrow> Inl e
                   | Inr (t, rows) \<Rightarrow> Inr (t, c\<lparr>titles := rows\<rparr>))))"

text \<open>\<^verbatim>\<open>TitleViewSet.perform_update\<close>\<close>

definition perform_update ::
  "request_body \<Rightarrow> title_serializer \<Rightarrow> catalog \<Rightarrow> exn + title \<times> catalog" where
  "perform_update request_data serializer c = perform_create request_data serializer c"

text \<open>
  The PATCH of a title as the update mixin of the framework runs it: find the title
  (404), validate the payload against it (the serializer's validation is a
  parameter), then \<^verbatim>\<open>perform_update\<close>.
\<close>

definition partial_update ::
  "(title \<Rightarrow> request_body \<Rightarrow> errors + title_fields) \<Rightarrow> nat \<Rightarrow> request_body \<Rightarrow> catalog \<Rightarrow>
     (exn + title response) \<times> catalog" where
  "partial_update is_valid k request_data c =
     (case get_object_or_404 (\<lambda>t. title_id t = k) (titles c) of
        Inl e \<Rightarrow> (Inl e, c)
      | Inr t \<Rightarrow>
          (case is_valid t request_data of
             Inl errs \<Rightarrow> (Inl (SerializerError errs), c)
           | Inr vd \<Rightarrow>
               (case perform_update request_data \<lparr>instance_obj = Some t, validated_data = vd\<rparr> c of
                  Inl e \<Rightarrow> (Inl e, c)
                | Inr (t', c') \<Rightarrow> (Inr \<lparr>status_code = 200, data = t'\<rparr>, c'))))"

section \<open>Properties of the username validator\<close>

lemma in_username_cset:
  "in_cset isalnum username_cset c \<longleftrightarrow>
     isalnum c \<or> c = 95 \<or> c = 46 \<or> c = 64 \<or> c = 43 \<or> c = 45"
  by (auto simp: in_cset_def username_cset_def)

lemma repeat_end:
  "match_here isalnum [Max_repeat_in items, At_end_string] b s \<longleftrightarrow>
     (\<exists>k. 1 \<le> k \<and> k \<le> length (takeWhile (in_cset isalnum items) s) \<and> length s \<le> k)"
  by (auto simp: list_ex_iff)

lemma takeWhile_full: "length (takeWhile P s) = length s \<longleftrightarrow> (\<forall>c \<in> set s. P c)"
  by (induction s) (auto dest: le_trans [OF _ length_takeWhile_le])

lemma repeat_end_iff:
  "match_here isalnum [Max_repeat_in items, At_end_string] b s \<longleftrightarrow>
     s \<noteq> [] \<and> (\<forall>c \<in> set s. in_cset isalnum items c)"
proof -
  let ?n = "length (takeWhile (in_cset isalnum items) s)"
  have le: "?n \<le> length s"
    by (rule length_takeWhile_le)
  have "(\<exists>k. 1 \<le> k \<and> k \<le> ?n \<and> length s \<le> k) \<longleftrightarrow> s \<noteq> [] \<and> ?n = length s"
  proof
    assume "\<exists>k. 1 \<le> k \<and> k \<le> ?n \<and> length s \<le> k"
    then obtain k where k: "1 \<le> k" "k \<le> ?n" "length s \<le> k" by blast
    with le have "?n = length s" "1 \<le> length s" by linarith+
    then show "s \<noteq> [] \<and> ?n = length s" by auto
  next
    assume a: "s \<noteq> [] \<and> ?n = length s"
    then have "1 \<le> length s" by (cases s) simp_all
    with a have "1 \<le> length s \<and> length s \<le> ?n \<and> length s \<le> length s" by simp
    then show "\<exists>k. 1 \<le> k \<and> k \<le> ?n \<and> length s \<le> k" by blast
  qed
  then show ?thesis
    by (simp only: repeat_end takeWhile_full)
qed

lemma match_here_username_pattern:
  "match_here isalnum username_pattern b s \<longleftrightarrow>
     b \<and> s \<noteq> [] \<and> (\<forall>c \<in> set s. in_cset isalnum username_cset c)"
  unfolding username_pattern_def
  by (simp only: match_here.simps(2) repeat_end_iff)

lemma re_search_username_pattern:
  "re_search isalnum username_pattern s \<longleftrightarrow>
     s \<noteq> [] \<and> (\<forall>c \<in> set s. in_cset isalnum username_cset c)"
proof -
  have "re_search isalnum username_pattern s \<longleftrightarrow>
        (\<exists>i. i \<le> length s \<and> match_here isalnum username_pattern (i = 0) (drop i s))"
    by (auto simp add: re_search_def list_ex_iff less_Suc_eq_le simp del: upt_Suc)
  also have "\<dots> \<longleftrightarrow> match_here isalnum username_pattern True s"
    unfolding match_here_username_pattern by auto
  finally show ?thesis
    by (simp add: match_here_username_pattern)
qed

lemma validate_username_eq:
  "validate_username isalnum v =
     (if v = [109, 101] then Inl (ValidationError msg_username_me v)
      else if v = [] \<or>
          (\<exists>c \<in> set v. \<not> (isalnum c \<or> c = 95 \<or> c = 46 \<or> c = 64 \<or> c = 43 \<or> c = 45))
        then Inl (ValidationError (msg_username_chars v) v)
      else Inr ())"
  unfolding validate_username_def re_search_username_pattern in_username_cset str_me_def
  by auto

text \<open>
  C3: for every string value, \<open>validate_username\<close> raises a ValidationError if and only
  if the value is the literal "me" or does not fully match \<^verbatim>\<open>[\w.@+-]+\<close>, that is, it
  is empty or has a character outside the class (\<^verbatim>\<open>\w\<close>: alphanumeric or underscore;
  the literals 46, 64, 43, 45 are \<^verbatim>\<open>.\<close>, \<^verbatim>\<open>@\<close>, \<^verbatim>\<open>+\<close>, \<^verbatim>\<open>-\<close>); every other value passes.
  A signup request that carries the value as username (and an email) is rejected by
  the signup serializer, with an error naming \<^verbatim>\<open>username\<close>, on exactly those values.
\<close>

theorem validate_username_raises_iff:
  "((\<exists>m. validate_username isalnum v = Inl (ValidationError m v)) \<longleftrightarrow>
     (v = [109, 101] \<or> v = [] \<or>
      (\<exists>c \<in> set v. \<not> (isalnum c \<or> c = 95 \<or> c = 46 \<or> c = 64 \<or> c = 43 \<or> c = 45)))) \<and>
   (validate_username isalnum v = Inr () \<longleftrightarrow>
     \<not> (v = [109, 101] \<or> v = [] \<or>
      (\<exists>c \<in> set v. \<not> (isalnum c \<or> c = 95 \<or> c = 46 \<or> c = 64 \<or> c = 43 \<or> c = 45)))) \<and>
   (\<forall>rows request_data e.
      request_data ''username'' = Some v \<and> request_data ''email'' = Some e \<longrightarrow>
      ((\<exists>m. SignUpSerializer_is_valid isalnum rows request_data = Inl [(''username'', [m])]) \<longleftrightarrow>
       (v = [109, 101] \<or> v = [] \<or>
        (\<exists>c \<in> set v. \<not> (isalnum c \<or> c = 95 \<or> c = 46 \<or> c = 64 \<or> c = 43 \<or> c = 45)))))"
proof (intro conjI allI impI)
  show "(\<exists>m. validate_username isalnum v = Inl (ValidationError m v)) \<longleftrightarrow>
     (v = [109, 101] \<or> v = [] \<or>
      (\<exists>c \<in> set v. \<not> (isalnum c \<or> c = 95 \<or> c = 46 \<or> c = 64 \<or> c = 43 \<or> c = 45)))"
    by (simp add: validate_username_eq)
  show "validate_username isalnum v = Inr () \<longleftrightarrow>
     \<not> (v = [109, 101] \<or> v = [] \<or>
      (\<exists>c \<in> set v. \<not> (isalnum c \<or> c = 95 \<or> c = 46 \<or> c = 64 \<or> c = 43 \<or> c = 45)))"
    by (simp add: validate_username_eq)
next
  fix rows :: "user list" and request_data :: "string \<rightharpoonup> pystr" and e
  assume "request_data ''username'' = Some v \<and> request_data ''email'' = Some e"
  then have "SignUpSerializer_is_valid isalnum rows request_data =
      (case validate_username isalnum v of
         Inl (ValidationError m _) \<Rightarrow> Inl [(''username'', [m])]
       | Inl _ \<Rightarrow> Inl [(''username'', [])]
       | Inr _ \<Rightarrow> Inr \<lparr>su_username = v, su_email = e\<rparr>)"
    by (simp add: SignUpSerializer_is_valid_def)
  then show "(\<exists>m. SignUpSerializer_is_valid isalnum rows request_data = Inl [(''username'', [m])]) \<longleftrightarrow>
       (v = [109, 101] \<or> v = [] \<or>
        (\<exists>c \<in> set v. \<not> (isalnum c \<or> c = 95 \<or> c = 46 \<or> c = 64 \<or> c = 43 \<or> c = 45)))"
    by (simp add: validate_username_eq)
qed

theorem validate_username_raises_iff_witness:
  "validate_username (\<lambda>c. 97 \<le> c \<and> c \<le> 122) [98, 111, 98] = Inr () \<and>
   (\<exists>m. validate_username (\<lambda>c. 97 \<le> c \<and> c \<le> 122) [98, 32, 98] =
      Inl (ValidationError m [98, 32, 98])) \<and>
   (\<exists>m. validate_username (\<lambda>c. 97 \<le> c \<and> c \<le> 122) [109, 101] =
      Inl (ValidationError m [109, 101]))"
  using validate_username_raises_iff [of "\<lambda>c. 97 \<le> c \<and> c \<le> 122" "[98, 111, 98]"]
    validate_username_raises_iff [of "\<lambda>c. 97 \<le> c \<and> c \<le> 122" "[98, 32, 98]"]
    validate_username_raises_iff [of "\<lambda>c. 97 \<le> c \<and> c \<le> 122" "[109, 101]"]
  by simp

section \<open>Properties of the token exchange\<close>

lemma filter_key_distinct:
  "distinct (map f rows) \<Longrightarrow> x \<in> set rows \<Longrightarrow> filter (\<lambda>y. f y = f x) rows = [x]"
proof (induction rows)
  case Nil
  then show ?case by simp
next
  case (Cons a rows)
  show ?case
  proof (cases "a = x")
    case True
    with Cons.prems have "f x \<notin> f ` set rows" by simp
    then have "\<forall>y \<in> set rows. f y \<noteq> f x" by (metis imageI)
    then have "filter (\<lambda>y. f y = f x) rows = []" by (simp add: filter_empty_conv)
    with True show ?thesis by simp
  next
    case False
    with Cons.prems have "x \<in> set rows" "f a \<noteq> f x" by auto
    with Cons show ?thesis by simp
  qed
qed

lemma objects_get_none:
  "(\<forall>x \<in> set rows. \<not> p x) \<Longrightarrow> objects_get p rows = Inl DoesNotExist"
  by (simp add: objects_get_def filter_empty_conv)

lemma objects_get_unique:
  "distinct (map f rows) \<Longrightarrow> x \<in> set rows \<Longrightarrow> objects_get (\<lambda>y. f y = f x) rows = Inr x"
  by (simp add: objects_get_def filter_key_distinct)

lemma objects_get_Inr:
  "objects_get p rows = Inr x \<Longrightarrow> x \<in> set rows \<and> p x \<and> filter p rows = [x]"
proof -
  assume a: "objects_get p rows = Inr x"
  then have f: "filter p rows = [x]"
    by (auto simp: objects_get_def split: list.splits)
  then have "set (filter p rows) = {x}" by simp
  then have "{y \<in> set rows. p y} = {x}" by (simp only: set_filter)
  with f show ?thesis by blast
qed

lemma objects_get_DoesNotExist:
  "objects_get p rows = Inl DoesNotExist \<longleftrightarrow> (\<forall>x \<in> set rows. \<not> p x)"
proof -
  have "objects_get p rows = Inl DoesNotExist \<longleftrightarrow> filter p rows = []"
    by (simp add: objects_get_def split: list.splits)
  then show ?thesis by (simp only: filter_empty_conv)
qed

lemma APIGetToken_post_world:
  "snd (APIGetToken_post is_valid check_token for_user request_data w) = w"
  by (simp add: APIGetToken_post_def split: sum.splits exn.splits)

lemma APIGetToken_post_missing:
  assumes "is_valid (users w) request_data = Inr d"
      and "\<forall>u \<in> set (users w). username u \<noteq> tk_username d"
  shows "APIGetToken_post is_valid check_token for_user request_data w =
           (Inr \<lparr>status_code = 404, data = [(''username'', msg_user_not_found)]\<rparr>, w)"
proof -
  have "objects_get (\<lambda>x. username x = tk_username d) (users w) = Inl DoesNotExist"
    using assms(2) by (simp add: objects_get_none)
  with assms(1) show ?thesis
    by (simp add: APIGetToken_post_def)
qed

lemma APIGetToken_post_found:
  assumes "is_valid (users w) request_data = Inr d"
      and "distinct (map username (users w))"
      and "u \<in> set (users w)" and "username u = tk_username d"
  shows "APIGetToken_post is_valid check_token for_user request_data w =
           (if check_token u (tk_confirmation_code d)
            then (Inr \<lparr>status_code = 200, data = [(''token'', for_user u)]\<rparr>, w)
            else (Inr \<lparr>status_code = 400,
                       data = [(''confirmation_code'', msg_bad_code)]\<rparr>, w))"
proof -
  have "objects_get (\<lambda>x. username x = username u) (users w) = Inr u"
    using assms(2,3) by (rule objects_get_unique)
  with assms(1,4) show ?thesis
    by (simp add: APIGetToken_post_def)
qed

text \<open>
  C1: for a request that the serializer accepts, over a table with unique usernames,
  the exchange returns a token if and only if a user with the username exists and
  \<open>check_token\<close> holds for the code; when no user matches, the response is a 404 whose
  body has the key \<^verbatim>\<open>'username'\<close>; when the user exists and the code fails, it is a
  400 whose body has the key \<^verbatim>\<open>'confirmation_code'\<close>; neither carries a token.
\<close>

theorem token_exchange_outcomes:
  assumes valid: "is_valid (users w) request_data = Inr d"
      and uniq: "distinct (map username (users w))"
  shows "(returns_token (fst (APIGetToken_post is_valid check_token for_user request_data w)) \<longleftrightarrow>
            (\<exists>u \<in> set (users w). username u = tk_username d \<and>
                check_token u (tk_confirmation_code d))) \<and>
         (\<forall>u \<in> set (users w). username u = tk_username d \<and>
              check_token u (tk_confirmation_code d) \<longrightarrow>
            fst (APIGetToken_post is_valid check_token for_user request_data w) =
              Inr \<lparr>status_code = 200, data = [(''token'', for_user u)]\<rparr>) \<and>
         ((\<forall>u \<in> set (users w). username u \<noteq> tk_username d) \<longrightarrow>
            fst (APIGetToken_post is_valid check_token for_user request_data w) =
              Inr \<lparr>status_code = 404, data = [(''username'', msg_user_not_found)]\<rparr>) \<and>
         (\<forall>u \<in> set (users w). username u = tk_username d \<and>
              \<not> check_token u (tk_confirmation_code d) \<longrightarrow>
            fst (APIGetToken_post is_valid check_token for_user request_data w) =
              Inr \<lparr>status_code = 400, data = [(''confirmation_code'', msg_bad_code)]\<rparr>)"
proof (cases "\<exists>u \<in> set (users w). username u = tk_username d")
  case False
  then have none: "\<forall>u \<in> set (users w). username u \<noteq> tk_username d" by blast
  show ?thesis
    using none
      APIGetToken_post_missing [of is_valid w request_data d check_token for_user, OF valid none]
    by (simp add: returns_token_def)
next
  case True
  then obtain u where u: "u \<in> set (users w)" "username u = tk_username d" by blast
  have only: "\<forall>u' \<in> set (users w). username u' = tk_username d \<longrightarrow> u' = u"
    using u uniq by (metis distinct_map inj_onD)
  let ?r = "fst (APIGetToken_post is_valid check_token for_user request_data w)"
  have post: "APIGetToken_post is_valid check_token for_user request_data w =
           (if check_token u (tk_confirmation_code d)
            then (Inr \<lparr>status_code = 200, data = [(''token'', for_user u)]\<rparr>, w)
            else (Inr \<lparr>status_code = 400,
                       data = [(''confirmation_code'', msg_bad_code)]\<rparr>, w))"
    using APIGetToken_post_found [of is_valid w request_data d u check_token for_user]
      valid uniq u by blast
  show ?thesis
  proof (cases "check_token u (tk_confirmation_code d)")
    case True
    with post have r: "?r = Inr \<lparr>status_code = 200, data = [(''token'', for_user u)]\<rparr>"
      by simp
    then have tok: "returns_token ?r"
      by (simp add: returns_token_def)
    from tok True u have c1: "returns_token ?r \<longleftrightarrow>
        (\<exists>u \<in> set (users w). username u = tk_username d \<and>
                check_token u (tk_confirmation_code d))"
      by blast
    from r only have c2: "\<forall>u \<in> set (users w). username u = tk_username d \<and>
              check_token u (tk_confirmation_code d) \<longrightarrow>
            ?r = Inr \<lparr>status_code = 200, data = [(''token'', for_user u)]\<rparr>"
      by blast
    from u have c3: "(\<forall>u \<in> set (users w). username u \<noteq> tk_username d) \<longrightarrow>
            ?r = Inr \<lparr>status_code = 404, data = [(''username'', msg_user_not_found)]\<rparr>"
      by blast
    from True only have c4: "\<forall>u \<in> set (users w). username u = tk_username d \<and>
              \<not> check_token u (tk_confirmation_code d) \<longrightarrow>
            ?r = Inr \<lparr>status_code = 400, data = [(''confirmation_code'', msg_bad_code)]\<rparr>"
      by blast
    from c1 c2 c3 c4 show ?thesis by (intro conjI)
  next
    case False
    with post have r: "?r = Inr \<lparr>status_code = 400,
                       data = [(''confirmation_code'', msg_bad_code)]\<rparr>"
      by simp
    then have tok: "\<not> returns_token ?r"
      by (simp add: returns_token_def)
    from tok False only have c1: "returns_token ?r \<longleftrightarrow>
        (\<exists>u \<in> set (users w). username u = tk_username d \<and>
                check_token u (tk_confirmation_code d))"
      by blast
    from False only have c2: "\<forall>u \<in> set (users w). username u = tk_username d \<and>
              check_token u (tk_confirmation_code d) \<longrightarrow>
            ?r = Inr \<lparr>status_code = 200, data = [(''token'', for_user u)]\<rparr>"
      by blast
    from u have c3: "(\<forall>u \<in> set (users w). username u \<noteq> tk_username d) \<longrightarrow>
            ?r = Inr \<lparr>status_code = 404, data = [(''username'', msg_user_not_found)]\<rparr>"
      by blast
    from r have c4: "\<forall>u \<in> set (users w). username u = tk_username d \<and>
              \<not> check_token u (tk_confirmation_code d) \<longrightarrow>
            ?r = Inr \<lparr>status_code = 400, data = [(''confirmation_code'', msg_bad_code)]\<rparr>"
      by blast
    from c1 c2 c3 c4 show ?thesis by (intro conjI)
  qed
qed

theorem token_exchange_outcomes_witness:
  "fst (APIGetToken_post (\<lambda>rows rd. Inr rd) (\<lambda>u c. c = [49]) (\<lambda>u. 74 # username u)
          \<lparr>tk_username = [97], tk_confirmation_code = [49]\<rparr>
          \<lparr>users = [\<lparr>pk = 1, username = [97], email = [97, 64, 98], role = Role_user,
                     bio = []\<rparr>], outbox = []\<rparr>) =
     Inr \<lparr>status_code = 200, data = [(''token'', [74, 97])]\<rparr> \<and>
   fst (APIGetToken_post (\<lambda>rows rd. Inr rd) (\<lambda>u c. c = [49]) (\<lambda>u. 74 # username u)
          \<lparr>tk_username = [97], tk_confirmation_code = [50]\<rparr>
          \<lparr>users = [\<lparr>pk = 1, username = [97], email = [97, 64, 98], role = Role_user,
                     bio = []\<rparr>], outbox = []\<rparr>) =
     Inr \<lparr>status_code = 400, data = [(''confirmation_code'', msg_bad_code)]\<rparr> \<and>
   fst (APIGetToken_post (\<lambda>rows rd. Inr rd) (\<lambda>u c. c = [49]) (\<lambda>u. 74 # username u)
          \<lparr>tk_username = [98], tk_confirmation_code = [49]\<rparr>
          \<lparr>users = [\<lparr>pk = 1, username = [97], email = [97, 64, 98], role = Role_user,
                     bio = []\<rparr>], outbox = []\<rparr>) =
     Inr \<lparr>status_code = 404, data = [(''username'', msg_user_not_found)]\<rparr>"
  using token_exchange_outcomes [of "\<lambda>rows rd. Inr rd"
      "\<lparr>users = [\<lparr>pk = 1, username = [97], email = [97, 64, 98], role = Role_user,
                     bio = []\<rparr>], outbox = []\<rparr>"
      "\<lparr>tk_username = [97], tk_confirmation_code = [49]\<rparr>"
      "\<lparr>tk_username = [97], tk_confirmation_code = [49]\<rparr>"
      "\<lambda>u c. c = [49]" "\<lambda>u. 74 # username u"]
    token_exchange_outcomes [of "\<lambda>rows rd. Inr rd"
      "\<lparr>users = [\<lparr>pk = 1, username = [97], email = [97, 64, 98], role = Role_user,
                     bio = []\<rparr>], outbox = []\<rparr>"
      "\<lparr>tk_username = [97], tk_confirmation_code = [50]\<rparr>"
      "\<lparr>tk_username = [97], tk_confirmation_code = [50]\<rparr>"
      "\<lambda>u c. c = [49]" "\<lambda>u. 74 # username u"]
    token_exchange_outcomes [of "\<lambda>rows rd. Inr rd"
      "\<lparr>users = [\<lparr>pk = 1, username = [97], email = [97, 64, 98], role = Role_user,
                     bio = []\<rparr>], outbox = []\<rparr>"
      "\<lparr>tk_username = [98], tk_confirmation_code = [49]\<rparr>"
      "\<lparr>tk_username = [98], tk_confirmation_code = [49]\<rparr>"
      "\<lambda>u c. c = [49]" "\<lambda>u. 74 # username u"]
  by simp

lemma APIGetToken_post_cases:
  assumes "is_valid (users w) request_data = Inr d"
  shows "fst (APIGetToken_post is_valid check_token for_user request_data w) =
     (case objects_get (\<lambda>x. username x = tk_username d) (users w) of
        Inl DoesNotExist \<Rightarrow>
          Inr \<lparr>status_code = 404, data = [(''username'', msg_user_not_found)]\<rparr>
      | Inl e \<Rightarrow> Inl e
      | Inr u \<Rightarrow>
          if check_token u (tk_confirmation_code d)
          then Inr \<lparr>status_code = 200, data = [(''token'', for_user u)]\<rparr>
          else Inr \<lparr>status_code = 400, data = [(''confirmation_code'', msg_bad_code)]\<rparr>)"
  using assms by (simp add: APIGetToken_post_def split: sum.splits exn.splits)

text \<open>
  C8: user existence is checked before the code. For a request the serializer accepts
  whose username matches no user, the response is the 404 user-not-found error whatever
  \<open>check_token\<close> would say of the code (it is not consulted); the 400 invalid-code
  response occurs only for an existing user whose code fails.
\<close>

theorem token_exchange_user_before_code:
  assumes valid: "is_valid (users w) request_data = Inr d"
  shows "((\<forall>u \<in> set (users w). username u \<noteq> tk_username d) \<longrightarrow>
            (\<forall>check_token for_user.
               APIGetToken_post is_valid check_token for_user request_data w =
                 (Inr \<lparr>status_code = 404, data = [(''username'', msg_user_not_found)]\<rparr>, w))) \<and>
         (\<forall>check_token for_user.
            fst (APIGetToken_post is_valid check_token for_user request_data w) =
              Inr \<lparr>status_code = 400, data = [(''confirmation_code'', msg_bad_code)]\<rparr> \<longrightarrow>
            (\<exists>u \<in> set (users w). username u = tk_username d \<and>
                \<not> check_token u (tk_confirmation_code d)))"
proof (intro conjI impI allI)
  fix check_token :: "user \<Rightarrow> pystr \<Rightarrow> bool" and for_user :: "user \<Rightarrow> pystr"
  assume "\<forall>u \<in> set (users w). username u \<noteq> tk_username d"
  then show "APIGetToken_post is_valid check_token for_user request_data w =
      (Inr \<lparr>status_code = 404, data = [(''username'', msg_user_not_found)]\<rparr>, w)"
    by (rule APIGetToken_post_missing [of is_valid w request_data d, OF valid])
next
  fix check_token :: "user \<Rightarrow> pystr \<Rightarrow> bool" and for_user :: "user \<Rightarrow> pystr"
  assume r: "fst (APIGetToken_post is_valid check_token for_user request_data w) =
      Inr \<lparr>status_code = 400, data = [(''confirmation_code'', msg_bad_code)]\<rparr>"
  from r obtain u where g: "objects_get (\<lambda>x. username x = tk_username d) (users w) = Inr u"
      and c: "\<not> check_token u (tk_confirmation_code d)"
    unfolding APIGetToken_post_cases [of is_valid w request_data d, OF valid]
    by (auto split: sum.splits exn.splits if_splits)
  from objects_get_Inr [OF g] c
  show "\<exists>u \<in> set (users w). username u = tk_username d \<and> \<not> check_token u (tk_confirmation_code d)"
    by blast
qed

theorem token_exchange_user_before_code_witness:
  "APIGetToken_post (\<lambda>rows rd. Inr rd) (\<lambda>u c. True) (\<lambda>u. 74 # username u)
      \<lparr>tk_username = [98], tk_confirmation_code = [49]\<rparr>
      \<lparr>users = [\<lparr>pk = 1, username = [97], email = [97, 64, 98], role = Role_user,
                 bio = []\<rparr>], outbox = []\<rparr> =
     (Inr \<lparr>status_code = 404, data = [(''username'', msg_user_not_found)]\<rparr>,
      \<lparr>users = [\<lparr>pk = 1, username = [97], email = [97, 64, 98], role = Role_user,
                 bio = []\<rparr>], outbox = []\<rparr>)"
  using token_exchange_user_before_code [of "\<lambda>rows rd. Inr rd"
      "\<lparr>users = [\<lparr>pk = 1, username = [97], email = [97, 64, 98], role = Role_user,
                 bio = []\<rparr>], outbox = []\<rparr>"
      "\<lparr>tk_username = [98], tk_confirmation_code = [49]\<rparr>"
      "\<lparr>tk_username = [98], tk_confirmation_code = [49]\<rparr>"]
  by simp

text \<open>
  C6: a code is never marked as consumed. A successful exchange returns the world it
  was given, with the user table unchanged, and the same request is exchanged again
  successfully at any later moment at which \<open>check_token\<close> still holds for the user
  and the code.
\<close>

theorem confirmation_code_not_consumed:
  assumes valid: "is_valid (users w) request_data = Inr d"
      and ok: "fst (APIGetToken_post is_valid check_token for_user request_data w) =
                 Inr \<lparr>status_code = 200, data = [(''token'', tok)]\<rparr>"
  shows "snd (APIGetToken_post is_valid check_token for_user request_data w) = w \<and>
         (\<exists>u \<in> set (users w). username u = tk_username d \<and>
             check_token u (tk_confirmation_code d) \<and> tok = for_user u \<and>
             (\<forall>check_token' for_user'. check_token' u (tk_confirmation_code d) \<longrightarrow>
                APIGetToken_post is_valid check_token' for_user' request_data
                    (snd (APIGetToken_post is_valid check_token for_user request_data w)) =
                  (Inr \<lparr>status_code = 200, data = [(''token'', for_user' u)]\<rparr>, w)))"
proof -
  have same: "snd (APIGetToken_post is_valid check_token for_user request_data w) = w"
    by (rule APIGetToken_post_world)
  from ok obtain u where g: "objects_get (\<lambda>x. username x = tk_username d) (users w) = Inr u"
      and c: "check_token u (tk_confirmation_code d)" and t: "tok = for_user u"
    unfolding APIGetToken_post_cases [of is_valid w request_data d, OF valid]
    by (auto split: sum.splits exn.splits if_splits)
  have again: "APIGetToken_post is_valid check_token' for_user' request_data w =
          (Inr \<lparr>status_code = 200, data = [(''token'', for_user' u)]\<rparr>, w)"
    if "check_token' u (tk_confirmation_code d)" for check_token' for_user'
    using valid g that by (simp add: APIGetToken_post_def)
  from objects_get_Inr [OF g] have "u \<in> set (users w)" "username u = tk_username d"
    by simp_all
  with c t again same show ?thesis
    by (intro conjI bexI [of _ u]) simp_all
qed

theorem confirmation_code_not_consumed_witness:
  "APIGetToken_post (\<lambda>rows rd. Inr rd) (\<lambda>u c. c = [49]) (\<lambda>u. 75 # username u)
      \<lparr>tk_username = [97], tk_confirmation_code = [49]\<rparr>
      (snd (APIGetToken_post (\<lambda>rows rd. Inr rd) (\<lambda>u c. c = [49]) (\<lambda>u. 74 # username u)
         \<lparr>tk_username = [97], tk_confirmation_code = [49]\<rparr>
         \<lparr>users = [\<lparr>pk = 1, username = [97], email = [97, 64, 98], role = Role_user,
                    bio = []\<rparr>], outbox = []\<rparr>)) =
     (Inr \<lparr>status_code = 200, data = [(''token'', [75, 97])]\<rparr>,
      \<lparr>users = [\<lparr>pk = 1, username = [97], email = [97, 64, 98], role = Role_user,
                 bio = []\<rparr>], outbox = []\<rparr>)"
  using confirmation_code_not_consumed [of "\<lambda>rows rd. Inr rd"
      "\<lparr>users = [\<lparr>pk = 1, username = [97], email = [97, 64, 98], role = Role_user,
                 bio = []\<rparr>], outbox = []\<rparr>"
      "\<lparr>tk_username = [97], tk_confirmation_code = [49]\<rparr>"
      "\<lparr>tk_username = [97], tk_confirmation_code = [49]\<rparr>"
      "\<lambda>u c. c = [49]" "\<lambda>u. 74 # username u" "[74, 97]"]
  by (simp add: APIGetToken_post_def objects_get_def)

section \<open>Properties of signup\<close>

lemma objects_get_append_new:
  "(\<forall>y \<in> set rows. \<not> p y) \<Longrightarrow> p x \<Longrightarrow> objects_get p (rows @ [x]) = Inr x"
  by (simp add: objects_get_def filter_empty_conv)

lemma get_or_create_found:
  "objects_get (\<lambda>x. username x = u \<and> email x = e) rows = Inr x \<Longrightarrow>
     get_or_create rows u e = Inr ((x, False), rows)"
  by (simp add: get_or_create_def)

lemma get_or_create_new:
  assumes "\<forall>y \<in> set rows. username y \<noteq> u \<and> email y \<noteq> e"
  shows "get_or_create rows u e =
     Inr ((\<lparr>pk = new_pk rows, username = u, email = e, role = Role_user, bio = []\<rparr>, True),
          rows @ [\<lparr>pk = new_pk rows, username = u, email = e, role = Role_user, bio = []\<rparr>])"
proof -
  from assms have "objects_get (\<lambda>x. username x = u \<and> email x = e) rows = Inl DoesNotExist"
    by (simp add: objects_get_DoesNotExist)
  moreover from assms have "\<not> list_ex (\<lambda>x. username x = u \<or> email x = e) rows"
    by (simp add: list_ex_iff)
  ultimately show ?thesis
    by (simp add: get_or_create_def objects_create_def Let_def)
qed

lemma get_or_create_Inr:
  assumes "get_or_create rows u e = Inr ((x, b), rows')"
  shows "(\<not> b \<and> rows' = rows \<and>
            objects_get (\<lambda>x. username x = u \<and> email x = e) rows = Inr x) \<or>
         (b \<and> rows' = rows @ [x] \<and> username x = u \<and> email x = e \<and>
            (\<forall>y \<in> set rows. username y \<noteq> u \<and> email y \<noteq> e))"
proof (cases "objects_get (\<lambda>x. username x = u \<and> email x = e) rows")
  case (Inr y)
  with assms show ?thesis by (simp add: get_or_create_def)
next
  case (Inl err)
  show ?thesis
  proof (cases "list_ex (\<lambda>x. username x = u \<or> email x = e) rows")
    case True
    with assms Inl show ?thesis
      by (simp add: get_or_create_def objects_create_def split: exn.splits)
  next
    case False
    then have "\<forall>y \<in> set rows. username y \<noteq> u \<and> email y \<noteq> e"
      by (simp add: list_ex_iff)
    with assms Inl False show ?thesis
      by (auto simp: get_or_create_def objects_create_def Let_def split: exn.splits)
  qed
qed

lemma get_or_create_again:
  assumes "get_or_create rows u e = Inr ((x, b), rows')"
  shows "get_or_create rows' u e = Inr ((x, False), rows')"
proof -
  from get_or_create_Inr [OF assms]
  have "objects_get (\<lambda>x. username x = u \<and> email x = e) rows' = Inr x"
  proof
    assume "\<not> b \<and> rows' = rows \<and>
            objects_get (\<lambda>x. username x = u \<and> email x = e) rows = Inr x"
    then show ?thesis by simp
  next
    assume a: "b \<and> rows' = rows @ [x] \<and> username x = u \<and> email x = e \<and>
            (\<forall>y \<in> set rows. username y \<noteq> u \<and> email y \<noteq> e)"
    then have "objects_get (\<lambda>x. username x = u \<and> email x = e) (rows @ [x]) = Inr x"
      by (intro objects_get_append_new) auto
    with a show ?thesis by simp
  qed
  then show ?thesis by (rule get_or_create_found)
qed

lemma get_or_create_length:
  "get_or_create rows u e = Inr ((x, b), rows') \<Longrightarrow>
     length rows' = (if b then Suc (length rows) else length rows)"
  using get_or_create_Inr [of rows u e x b rows'] by auto

lemma get_or_create_member:
  assumes "get_or_create rows u e = Inr ((x, b), rows')"
  shows "x \<in> set rows' \<and> username x = u \<and> email x = e"
proof -
  from get_or_create_again [OF assms] have "get_or_create rows' u e = Inr ((x, False), rows')" .
  from get_or_create_Inr [OF this]
  have "objects_get (\<lambda>x. username x = u \<and> email x = e) rows' = Inr x" by simp
  from objects_get_Inr [OF this] show ?thesis by simp
qed

lemma send_email_eq:
  "send_email transport \<lparr>email_subject = str_subject,
       email_body = signup_email_body u c, to_email = email u\<rparr> out =
     (if transport (confirmation_mail u c) then Inr (out @ [confirmation_mail u c])
      else Inl SMTPException)"
  by (simp add: send_email_def confirmation_mail_def)

lemma APISignup_post_eq:
  assumes "is_valid (users w) request_data = Inr vd"
  shows "APISignup_post is_valid make_token transport request_data w =
     (case get_or_create (users w) (su_username vd) (su_email vd) of
        Inl e \<Rightarrow> (Inl e, w)
      | Inr ((u, b), rows) \<Rightarrow>
          if transport (confirmation_mail u (make_token u))
          then (Inr \<lparr>status_code = 200, data = signup_serializer_data vd\<rparr>,
                \<lparr>users = rows, outbox = outbox w @ [confirmation_mail u (make_token u)]\<rparr>)
          else (Inl SMTPException, \<lparr>users = rows, outbox = outbox w\<rparr>))"
  using assms
  by (simp add: APISignup_post_def send_email_eq Let_def split: sum.splits prod.splits)

lemma SignUpSerializer_accepts:
  assumes "SignUpSerializer_is_valid isalnum rows request_data = Inr vd"
  shows "request_data ''username'' = Some (su_username vd) \<and>
         request_data ''email'' = Some (su_email vd) \<and>
         validate_username isalnum (su_username vd) = Inr ()"
  using assms
  by (auto simp: SignUpSerializer_is_valid_def split: option.splits sum.splits exn.splits)

lemma signup_request_valid:
  "SignUpSerializer_is_valid (\<lambda>c. 97 \<le> c \<and> c \<le> 122) rows
       (\<lambda>k. if k = ''username'' then Some [98, 111, 98]
          else if k = ''email'' then Some [98, 64, 99] else None) =
     Inr \<lparr>su_username = [98, 111, 98], su_email = [98, 64, 99]\<rparr>"
  by (simp add: SignUpSerializer_is_valid_def validate_username_def
      re_search_username_pattern in_username_cset str_me_def)

lemma signup_example_run:
  "APISignup_post (SignUpSerializer_is_valid (\<lambda>c. 97 \<le> c \<and> c \<le> 122)) make_token (\<lambda>m. True)
      (\<lambda>k. if k = ''username'' then Some [98, 111, 98]
          else if k = ''email'' then Some [98, 64, 99] else None)
      \<lparr>users = [], outbox = []\<rparr> =
     (Inr \<lparr>status_code = 200,
           data = [(''username'', [98, 111, 98]), (''email'', [98, 64, 99])]\<rparr>,
      \<lparr>users = [\<lparr>pk = 1, username = [98, 111, 98], email = [98, 64, 99], role = Role_user,
                 bio = []\<rparr>],
       outbox =
         [confirmation_mail \<lparr>pk = 1, username = [98, 111, 98], email = [98, 64, 99],
            role = Role_user, bio = []\<rparr>
            (make_token \<lparr>pk = 1, username = [98, 111, 98], email = [98, 64, 99],
            role = Role_user, bio = []\<rparr>)]\<rparr>)"
  by (simp add: APISignup_post_def signup_request_valid get_or_create_def objects_get_def
      objects_create_def new_pk_def send_email_def confirmation_mail_def Let_def
      signup_serializer_data_def)

text \<open>
  C4, as amended: signup is idempotent on (username, email). For a pair the serializer
  accepts, two calls with the same request add at most one row to the user table,
  whatever the codes and the transport do; when the first call succeeds, it has sent
  exactly one message, carrying the code that \<open>make_token\<close> gave in that call, and a
  second call whose message the transport accepts fetches the existing row (the table
  is unchanged), succeeds with the same response and sends exactly one more message,
  carrying the code that \<open>make_token\<close> gave in the second call. The two codes need not
  differ.
\<close>

theorem signup_idempotent:
  assumes valid: "\<forall>rows. is_valid rows request_data = Inr vd"
  shows "length (users (snd (APISignup_post is_valid make_token2 transport2 request_data
            (snd (APISignup_post is_valid make_token1 transport1 request_data w))))) \<le>
           Suc (length (users w)) \<and>
         (\<forall>resp w1. APISignup_post is_valid make_token1 transport1 request_data w = (Inr resp, w1) \<longrightarrow>
            (\<exists>x \<in> set (users w1). username x = su_username vd \<and> email x = su_email vd \<and>
               outbox w1 = outbox w @ [confirmation_mail x (make_token1 x)] \<and>
               (transport2 (confirmation_mail x (make_token2 x)) \<longrightarrow>
                  APISignup_post is_valid make_token2 transport2 request_data w1 =
                    (Inr resp, w1\<lparr>outbox := outbox w1 @ [confirmation_mail x (make_token2 x)]\<rparr>))))"
proof -
  let ?u = "su_username vd" and ?e = "su_email vd"
  let ?p1 = "APISignup_post is_valid make_token1 transport1 request_data w"
  have v: "is_valid rows request_data = Inr vd" for rows
    using valid by simp
  note eq1 = APISignup_post_eq [of is_valid w request_data vd make_token1 transport1, OF v]
  have post2: "APISignup_post is_valid make_token2 transport2 request_data w' =
     (case get_or_create (users w') ?u ?e of
        Inl e \<Rightarrow> (Inl e, w')
      | Inr ((u, b), rows) \<Rightarrow>
          if transport2 (confirmation_mail u (make_token2 u))
          then (Inr \<lparr>status_code = 200, data = signup_serializer_data vd\<rparr>,
                \<lparr>users = rows, outbox = outbox w' @ [confirmation_mail u (make_token2 u)]\<rparr>)
          else (Inl SMTPException, \<lparr>users = rows, outbox = outbox w'\<rparr>))" for w'
    by (rule APISignup_post_eq [of is_valid w' request_data vd make_token2 transport2, OF v])
  have grow: "length (users (snd (APISignup_post is_valid make_token2 transport2 request_data w')))
        \<le> Suc (length (users w'))" for w'
  proof (cases "get_or_create (users w') ?u ?e")
    case (Inl err)
    then show ?thesis by (simp add: post2)
  next
    case (Inr r)
    then obtain x b rows where r: "get_or_create (users w') ?u ?e = Inr ((x, b), rows)"
      by (cases r) auto
    from get_or_create_length [OF r] have "length rows \<le> Suc (length (users w'))"
      by (simp split: if_splits)
    with r show ?thesis by (simp add: post2)
  qed
  have bound: "length (users (snd (APISignup_post is_valid make_token2 transport2 request_data
            (snd ?p1)))) \<le> Suc (length (users w))"
  proof (cases "get_or_create (users w) ?u ?e")
    case (Inl err)
    then have "snd ?p1 = w" by (simp add: eq1)
    then show ?thesis by (simp add: grow)
  next
    case (Inr r)
    then obtain x b rows where r: "get_or_create (users w) ?u ?e = Inr ((x, b), rows)"
      by (cases r) auto
    then have u1: "users (snd ?p1) = rows" by (simp add: eq1)
    from get_or_create_again [OF r] have "get_or_create (users (snd ?p1)) ?u ?e = Inr ((x, False), rows)"
      by (simp add: u1)
    then have "users (snd (APISignup_post is_valid make_token2 transport2 request_data (snd ?p1)))
        = rows"
      by (simp add: post2)
    moreover from get_or_create_length [OF r] have "length rows \<le> Suc (length (users w))"
      by (simp split: if_splits)
    ultimately show ?thesis by simp
  qed
  have second: "\<exists>x \<in> set (users w1). username x = ?u \<and> email x = ?e \<and>
               outbox w1 = outbox w @ [confirmation_mail x (make_token1 x)] \<and>
               (transport2 (confirmation_mail x (make_token2 x)) \<longrightarrow>
                  APISignup_post is_valid make_token2 transport2 request_data w1 =
                    (Inr resp, w1\<lparr>outbox := outbox w1 @ [confirmation_mail x (make_token2 x)]\<rparr>))"
    if p: "?p1 = (Inr resp, w1)" for resp w1
  proof -
    from p obtain x b rows where r: "get_or_create (users w) ?u ?e = Inr ((x, b), rows)"
      and t: "transport1 (confirmation_mail x (make_token1 x))"
      and resp: "resp = \<lparr>status_code = 200, data = signup_serializer_data vd\<rparr>"
      and w1: "w1 = \<lparr>users = rows, outbox = outbox w @ [confirmation_mail x (make_token1 x)]\<rparr>"
      unfolding eq1 by (auto split: sum.splits prod.splits if_splits)
    from get_or_create_member [OF r] have m: "x \<in> set (users w1)" "username x = ?u" "email x = ?e"
      by (simp_all add: w1)
    from get_or_create_again [OF r] have g2: "get_or_create (users w1) ?u ?e = Inr ((x, False), rows)"
      by (simp add: w1)
    have "APISignup_post is_valid make_token2 transport2 request_data w1 =
            (Inr resp, w1\<lparr>outbox := outbox w1 @ [confirmation_mail x (make_token2 x)]\<rparr>)"
      if "transport2 (confirmation_mail x (make_token2 x))"
      using that g2 by (simp add: post2 resp w1)
    with m w1 show ?thesis
      by (intro bexI [of _ x]) simp_all
  qed
  from bound second show ?thesis by blast
qed

theorem signup_idempotent_witness:
  "APISignup_post (SignUpSerializer_is_valid (\<lambda>c. 97 \<le> c \<and> c \<le> 122)) (\<lambda>u. [50]) (\<lambda>m. True)
      (\<lambda>k. if k = ''username'' then Some [98, 111, 98]
          else if k = ''email'' then Some [98, 64, 99] else None)
      (snd (APISignup_post (SignUpSerializer_is_valid (\<lambda>c. 97 \<le> c \<and> c \<le> 122))
         (\<lambda>u. [49]) (\<lambda>m. True)
         (\<lambda>k. if k = ''username'' then Some [98, 111, 98]
          else if k = ''email'' then Some [98, 64, 99] else None)
         \<lparr>users = [], outbox = []\<rparr>)) =
     (Inr \<lparr>status_code = 200,
           data = [(''username'', [98, 111, 98]), (''email'', [98, 64, 99])]\<rparr>,
      \<lparr>users = [\<lparr>pk = 1, username = [98, 111, 98], email = [98, 64, 99], role = Role_user,
                 bio = []\<rparr>],
       outbox =
         [confirmation_mail \<lparr>pk = 1, username = [98, 111, 98], email = [98, 64, 99],
            role = Role_user, bio = []\<rparr> [49],
          confirmation_mail \<lparr>pk = 1, username = [98, 111, 98], email = [98, 64, 99],
            role = Role_user, bio = []\<rparr> [50]]\<rparr>)"
proof -
  let ?S = "SignUpSerializer_is_valid (\<lambda>c. 97 \<le> c \<and> c \<le> 122)"
  let ?rd = "\<lambda>k. if k = ''username'' then Some [98, 111, 98]
          else if k = ''email'' then Some [98, 64, 99 :: nat] else None"
  let ?vd = "\<lparr>su_username = [98, 111, 98], su_email = [98, 64, 99]\<rparr>"
  let ?bob = "\<lparr>pk = 1, username = [98, 111, 98], email = [98, 64, 99], role = Role_user,
                 bio = []\<rparr>"
  have v: "\<forall>rows. ?S rows ?rd = Inr ?vd"
    by (intro allI signup_request_valid)
  have first: "APISignup_post ?S (\<lambda>u. [49]) (\<lambda>m. True) ?rd \<lparr>users = [], outbox = []\<rparr> =
      (Inr \<lparr>status_code = 200, data = [(''username'', [98, 111, 98]), (''email'', [98, 64, 99])]\<rparr>,
       \<lparr>users = [?bob], outbox = [confirmation_mail ?bob [49]]\<rparr>)"
    by (simp add: APISignup_post_def signup_request_valid get_or_create_def objects_get_def
        objects_create_def new_pk_def send_email_def confirmation_mail_def Let_def
        signup_serializer_data_def)
  from signup_idempotent [where is_valid = ?S and request_data = ?rd and vd = ?vd
      and ?make_token1.0 = "\<lambda>u. [49]" and ?transport1.0 = "\<lambda>m. True"
      and ?make_token2.0 = "\<lambda>u. [50]" and ?transport2.0 = "\<lambda>m. True"
      and w = "\<lparr>users = [], outbox = []\<rparr>", OF v] first
  show ?thesis by simp
qed

text \<open>
  C4, as first stated, fails: the code of a repeated signup is not fresh. The generator is a function of the
  user's state and of the time in seconds, so two calls in the same second use the
  same function: here both calls mail the same code to the same user.
\<close>

theorem signup_code_not_fresh_counterexample:
  "outbox (snd (APISignup_post (SignUpSerializer_is_valid (\<lambda>c. 97 \<le> c \<and> c \<le> 122))
      (\<lambda>u. 49 # username u) (\<lambda>m. True)
      (\<lambda>k. if k = ''username'' then Some [98, 111, 98]
          else if k = ''email'' then Some [98, 64, 99] else None)
      (snd (APISignup_post (SignUpSerializer_is_valid (\<lambda>c. 97 \<le> c \<and> c \<le> 122))
         (\<lambda>u. 49 # username u) (\<lambda>m. True)
         (\<lambda>k. if k = ''username'' then Some [98, 111, 98]
             else if k = ''email'' then Some [98, 64, 99] else None)
         \<lparr>users = [], outbox = []\<rparr>)))) =
     [confirmation_mail \<lparr>pk = 1, username = [98, 111, 98], email = [98, 64, 99],
        role = Role_user, bio = []\<rparr> [49, 98, 111, 98],
      confirmation_mail \<lparr>pk = 1, username = [98, 111, 98], email = [98, 64, 99],
        role = Role_user, bio = []\<rparr> [49, 98, 111, 98]]"
proof -
  let ?S = "SignUpSerializer_is_valid (\<lambda>c. 97 \<le> c \<and> c \<le> 122)"
  let ?rd = "\<lambda>k. if k = ''username'' then Some [98, 111, 98]
          else if k = ''email'' then Some [98, 64, 99 :: nat] else None"
  let ?bob = "\<lparr>pk = 1, username = [98, 111, 98], email = [98, 64, 99], role = Role_user,
                 bio = []\<rparr>"
  let ?m = "confirmation_mail ?bob [49, 98, 111, 98]"
  have first: "snd (APISignup_post ?S (\<lambda>u. 49 # username u) (\<lambda>m. True) ?rd
      \<lparr>users = [], outbox = []\<rparr>) = \<lparr>users = [?bob], outbox = [?m]\<rparr>"
    by (simp add: signup_example_run)
  have second: "APISignup_post ?S (\<lambda>u. 49 # username u) (\<lambda>m. True) ?rd
      \<lparr>users = [?bob], outbox = [?m]\<rparr> =
      (Inr \<lparr>status_code = 200, data = [(''username'', [98, 111, 98]), (''email'', [98, 64, 99])]\<rparr>,
       \<lparr>users = [?bob], outbox = [?m, ?m]\<rparr>)"
    by (simp add: APISignup_post_def signup_request_valid get_or_create_def objects_get_def
        send_email_def confirmation_mail_def Let_def signup_serializer_data_def)
  from first second show ?thesis by simp
qed

text \<open>
  C7: the body of a successful signup response is exactly the validated identity
  fields, username and email, with status 200, and it does not depend on the
  confirmation code: two runs on the same request and world that issue different
  codes (and use any transports) return the same response.
\<close>

theorem signup_response_independent_of_code:
  assumes r1: "fst (APISignup_post is_valid make_token1 transport1 request_data w) = Inr resp1"
      and r2: "fst (APISignup_post is_valid make_token2 transport2 request_data w) = Inr resp2"
  shows "resp1 = resp2 \<and>
         (\<exists>vd. is_valid (users w) request_data = Inr vd \<and>
            resp1 = \<lparr>status_code = 200,
                     data = [(''username'', su_username vd), (''email'', su_email vd)]\<rparr>)"
proof -
  from r1 obtain vd where v: "is_valid (users w) request_data = Inr vd"
    by (cases "is_valid (users w) request_data") (simp_all add: APISignup_post_def)
  from r1 have "resp1 = \<lparr>status_code = 200, data = signup_serializer_data vd\<rparr>"
    unfolding APISignup_post_eq [of is_valid w request_data vd, OF v]
    by (auto split: sum.splits prod.splits if_splits)
  moreover from r2 have "resp2 = \<lparr>status_code = 200, data = signup_serializer_data vd\<rparr>"
    unfolding APISignup_post_eq [of is_valid w request_data vd, OF v]
    by (auto split: sum.splits prod.splits if_splits)
  ultimately show ?thesis
    using v by (simp add: signup_serializer_data_def)
qed

theorem signup_response_independent_of_code_witness:
  "fst (APISignup_post (SignUpSerializer_is_valid (\<lambda>c. 97 \<le> c \<and> c \<le> 122)) (\<lambda>u. [49])
          (\<lambda>m. True)
          (\<lambda>k. if k = ''username'' then Some [98, 111, 98]
              else if k = ''email'' then Some [98, 64, 99] else None)
          \<lparr>users = [], outbox = []\<rparr>) =
   fst (APISignup_post (SignUpSerializer_is_valid (\<lambda>c. 97 \<le> c \<and> c \<le> 122)) (\<lambda>u. [50])
          (\<lambda>m. True)
          (\<lambda>k. if k = ''username'' then Some [98, 111, 98]
              else if k = ''email'' then Some [98, 64, 99] else None)
          \<lparr>users = [], outbox = []\<rparr>)"
proof -
  let ?S = "SignUpSerializer_is_valid (\<lambda>c. 97 \<le> c \<and> c \<le> 122)"
  let ?rd = "\<lambda>k. if k = ''username'' then Some [98, 111, 98]
          else if k = ''email'' then Some [98, 64, 99 :: nat] else None"
  let ?resp = "\<lparr>status_code = 200,
           data = [(''username'', [98, 111, 98]), (''email'', [98, 64, 99 :: nat])]\<rparr>"
  have r1: "fst (APISignup_post ?S (\<lambda>u. [49]) (\<lambda>m. True) ?rd \<lparr>users = [], outbox = []\<rparr>) =
      Inr ?resp"
    by (simp add: signup_example_run)
  have r2: "fst (APISignup_post ?S (\<lambda>u. [50]) (\<lambda>m. True) ?rd \<lparr>users = [], outbox = []\<rparr>) =
      Inr ?resp"
    by (simp add: signup_example_run)
  from signup_response_independent_of_code [OF r1 r2] r1 r2 show ?thesis
    by simp
qed

text \<open>
  C10: signup is not atomic with respect to the mail. When the pair is new, the row is
  created before the message is sent; if the transport then raises, the exception
  leaves the view and the new row stays in the user table.
\<close>

theorem signup_not_atomic:
  assumes valid: "is_valid (users w) request_data = Inr vd"
      and fresh: "\<forall>y \<in> set (users w). username y \<noteq> su_username vd \<and> email y \<noteq> su_email vd"
      and new: "x = \<lparr>pk = new_pk (users w), username = su_username vd, email = su_email vd,
                     role = Role_user, bio = []\<rparr>"
      and fails: "\<not> transport (confirmation_mail x (make_token x))"
  shows "APISignup_post is_valid make_token transport request_data w =
           (Inl SMTPException, w\<lparr>users := users w @ [x]\<rparr>) \<and> x \<notin> set (users w)"
proof -
  from fresh have "get_or_create (users w) (su_username vd) (su_email vd) =
      Inr ((x, True), users w @ [x])"
    unfolding new by (rule get_or_create_new)
  with fails have "APISignup_post is_valid make_token transport request_data w =
           (Inl SMTPException, w\<lparr>users := users w @ [x]\<rparr>)"
    by (simp add: APISignup_post_eq [of is_valid w request_data vd, OF valid])
  moreover from fresh new have "x \<notin> set (users w)" by auto
  ultimately show ?thesis by simp
qed

theorem signup_not_atomic_witness:
  "APISignup_post (SignUpSerializer_is_valid (\<lambda>c. 97 \<le> c \<and> c \<le> 122)) (\<lambda>u. [49])
      (\<lambda>m. False)
      (\<lambda>k. if k = ''username'' then Some [98, 111, 98]
          else if k = ''email'' then Some [98, 64, 99] else None)
      \<lparr>users = [], outbox = []\<rparr> =
     (Inl SMTPException,
      \<lparr>users = [\<lparr>pk = 1, username = [98, 111, 98], email = [98, 64, 99], role = Role_user,
                 bio = []\<rparr>],
       outbox = []\<rparr>)"
  using signup_not_atomic [where is_valid = "SignUpSerializer_is_valid (\<lambda>c. 97 \<le> c \<and> c \<le> 122)"
      and request_data = "\<lambda>k. if k = ''username'' then Some [98, 111, 98]
          else if k = ''email'' then Some [98, 64, 99] else None"
      and vd = "\<lparr>su_username = [98, 111, 98], su_email = [98, 64, 99]\<rparr>"
      and w = "\<lparr>users = [], outbox = []\<rparr>" and transport = "\<lambda>m. False"
      and make_token = "\<lambda>u. [49]"
      and x = "\<lparr>pk = 1, username = [98, 111, 98], email = [98, 64, 99], role = Role_user,
                 bio = []\<rparr>", OF signup_request_valid]
  by (simp add: new_pk_def)

section \<open>Properties of the caller's own record\<close>

lemma find_map_update:
  "find (\<lambda>x. pk x = k) rows = Some y \<Longrightarrow> pk inst = k \<Longrightarrow>
     find (\<lambda>x. pk x = k) (map (\<lambda>x. if pk x = k then inst else x) rows) = Some inst"
  by (induction rows) (auto split: if_splits)

lemma find_Some_list_ex:
  "find p rows = Some y \<Longrightarrow> list_ex p rows"
  by (induction rows) (auto split: if_splits)

lemma pk_set_attrs: "pk (set_attrs inst vd) = pk inst"
  by (simp add: set_attrs_def)

lemma save_user_row:
  assumes "row_of (pk inst) rows = Some y" and "save_user rows inst = Inr rows'"
  shows "row_of (pk inst) rows' = Some inst"
proof -
  from assms(1) have f: "find (\<lambda>x. pk x = pk inst) rows = Some y"
    by (simp add: row_of_def)
  then have ex: "list_ex (\<lambda>x. pk x = pk inst) rows"
    by (rule find_Some_list_ex)
  with assms(2) have "rows' = map (\<lambda>x. if pk x = pk inst then inst else x) rows"
    by (simp add: save_user_def split: if_splits)
  with find_map_update [OF f refl] show ?thesis
    by (simp add: row_of_def)
qed

lemma get_current_user_info_PATCH:
  "get_current_user_info is_valid PATCH request_user request_data w =
     (case is_valid (users w) request_user request_data of
        Inl errs \<Rightarrow> (Inl (SerializerError errs), w)
      | Inr vd \<Rightarrow>
          (case save_user (users w) (set_attrs request_user (vd\<lparr>p_role := Some (role request_user)\<rparr>)) of
             Inl e \<Rightarrow> (Inl e, w)
           | Inr rows \<Rightarrow>
               (Inr \<lparr>status_code = 200,
                     data = set_attrs request_user (vd\<lparr>p_role := Some (role request_user)\<rparr>)\<rparr>,
                w\<lparr>users := rows\<rparr>)))"
  by (simp add: get_current_user_info_def Let_def split: sum.splits)

text \<open>
  C2: for every authenticated caller (\<open>request_user\<close> is the caller's stored row) and
  every PATCH payload to \<^verbatim>\<open>/users/me\<close>, the role of the caller's row after the request is
  the role before it, whatever the payload says of \<open>role\<close> and whether the request
  succeeds or not; on success the other validated fields of the payload are applied to
  the caller's own row, which is the body of the response.
\<close>

theorem self_service_patch_keeps_role:
  assumes row: "row_of (pk request_user) (users w) = Some request_user"
  shows "(\<exists>x. row_of (pk request_user)
              (users (snd (get_current_user_info is_valid PATCH request_user request_data w))) =
              Some x \<and> role x = role request_user) \<and>
         (\<forall>resp. fst (get_current_user_info is_valid PATCH request_user request_data w) = Inr resp \<longrightarrow>
            (\<exists>vd. is_valid (users w) request_user request_data = Inr vd \<and>
               row_of (pk request_user)
                 (users (snd (get_current_user_info is_valid PATCH request_user request_data w))) =
                 Some (data resp) \<and>
               role (data resp) = role request_user \<and>
               username (data resp) =
                 (case p_username vd of None \<Rightarrow> username request_user | Some v \<Rightarrow> v) \<and>
               email (data resp) =
                 (case p_email vd of None \<Rightarrow> email request_user | Some v \<Rightarrow> v) \<and>
               bio (data resp) =
                 (case p_bio vd of None \<Rightarrow> bio request_user | Some v \<Rightarrow> v) \<and>
               pk (data resp) = pk request_user))"
proof (cases "is_valid (users w) request_user request_data")
  case (Inl errs)
  then have "get_current_user_info is_valid PATCH request_user request_data w =
      (Inl (SerializerError errs), w)"
    by (simp add: get_current_user_info_PATCH)
  with row show ?thesis by simp
next
  case (Inr vd)
  let ?inst = "set_attrs request_user (vd\<lparr>p_role := Some (role request_user)\<rparr>)"
  have pk: "pk ?inst = pk request_user" by (rule pk_set_attrs)
  show ?thesis
  proof (cases "save_user (users w) ?inst")
    case (Inl e)
    with Inr have "get_current_user_info is_valid PATCH request_user request_data w = (Inl e, w)"
      by (simp add: get_current_user_info_PATCH)
    with row show ?thesis by simp
  next
    case (Inr rows)
    with \<open>is_valid (users w) request_user request_data = Inr vd\<close>
    have g: "get_current_user_info is_valid PATCH request_user request_data w =
        (Inr \<lparr>status_code = 200, data = ?inst\<rparr>, w\<lparr>users := rows\<rparr>)"
      by (simp add: get_current_user_info_PATCH)
    from row have "row_of (pk ?inst) (users w) = Some request_user" by (simp add: pk)
    from save_user_row [OF this Inr] have r: "row_of (pk request_user) rows = Some ?inst"
      by (simp add: pk)
    have f: "role ?inst = role request_user"
      "username ?inst = (case p_username vd of None \<Rightarrow> username request_user | Some v \<Rightarrow> v)"
      "email ?inst = (case p_email vd of None \<Rightarrow> email request_user | Some v \<Rightarrow> v)"
      "bio ?inst = (case p_bio vd of None \<Rightarrow> bio request_user | Some v \<Rightarrow> v)"
      by (simp_all add: set_attrs_def)
    from g r f pk \<open>is_valid (users w) request_user request_data = Inr vd\<close>
    show ?thesis by simp
  qed
qed

theorem self_service_patch_keeps_role_witness:
  "get_current_user_info (\<lambda>rows u d. Inr d) PATCH
      \<lparr>pk = 1, username = [97], email = [97, 64, 98], role = Role_user, bio = []\<rparr>
      \<lparr>p_username = None, p_email = None, p_bio = Some [104, 105], p_role = Some Role_admin\<rparr>
      \<lparr>users = [\<lparr>pk = 1, username = [97], email = [97, 64, 98], role = Role_user, bio = []\<rparr>],
       outbox = []\<rparr> =
     (Inr \<lparr>status_code = 200,
           data = \<lparr>pk = 1, username = [97], email = [97, 64, 98], role = Role_user,
                   bio = [104, 105]\<rparr>\<rparr>,
      \<lparr>users = [\<lparr>pk = 1, username = [97], email = [97, 64, 98], role = Role_user,
                 bio = [104, 105]\<rparr>],
       outbox = []\<rparr>)"
  using self_service_patch_keeps_role [where is_valid = "\<lambda>rows u d. Inr d"
      and request_user = "\<lparr>pk = 1, username = [97], email = [97, 64, 98], role = Role_user, bio = []\<rparr>"
      and request_data = "\<lparr>p_username = None, p_email = None, p_bio = Some [104, 105],
         p_role = Some Role_admin\<rparr>"
      and w = "\<lparr>users = [\<lparr>pk = 1, username = [97], email = [97, 64, 98], role = Role_user,
         bio = []\<rparr>], outbox = []\<rparr>"]
  by (simp add: row_of_def get_current_user_info_PATCH save_user_def set_attrs_def)

section \<open>Properties of the title views\<close>

lemma perform_create_no_category:
  assumes "\<forall>x \<in> set (categories c).
             Some (JString (cat_slug x)) \<noteq> data_get request_data ''category''"
  shows "perform_create request_data serializer c = Inl Http404"
proof -
  from assms have "objects_get (\<lambda>x. Some (JString (cat_slug x)) = data_get request_data ''category'')
      (categories c) = Inl DoesNotExist"
    by (simp add: objects_get_DoesNotExist)
  then show ?thesis
    by (simp add: perform_create_def get_object_or_404_def)
qed

lemma Some_JString_iff:
  "Some (JString s) = map_option JString v \<longleftrightarrow> Some s = v"
  by (cases v) auto

lemma get_object_or_404_Inr:
  "objects_get p rows = Inr x \<Longrightarrow> get_object_or_404 p rows = Inr x"
  by (simp add: get_object_or_404_def)

lemma serializer_save_update:
  "serializer_save \<lparr>instance_obj = Some t, validated_data = vd\<rparr> cat gs rows =
     Inr (t\<lparr>title_name := (case tf_name vd of None \<Rightarrow> title_name t | Some v \<Rightarrow> v),
            title_year := (case tf_year vd of None \<Rightarrow> title_year t | Some v \<Rightarrow> v),
            title_description :=
              (case tf_description vd of None \<Rightarrow> title_description t | Some v \<Rightarrow> v),
            title_category := Some (cat_id cat),
            title_genre := map genre_id gs\<rparr>,
          map (\<lambda>x. if title_id x = title_id t
                 then t\<lparr>title_name := (case tf_name vd of None \<Rightarrow> title_name t | Some v \<Rightarrow> v),
                        title_year := (case tf_year vd of None \<Rightarrow> title_year t | Some v \<Rightarrow> v),
                        title_description :=
                          (case tf_description vd of None \<Rightarrow> title_description t | Some v \<Rightarrow> v),
                        title_category := Some (cat_id cat),
                        title_genre := map genre_id gs\<rparr>
                 else x) rows)"
  by (simp add: serializer_save_def Let_def)

lemma perform_create_dict:
  assumes "objects_get (\<lambda>x. Some (JString (cat_slug x)) = d ''category'') (categories c) = Inr cat"
  shows "perform_create (Dict d) serializer c = Inl AttributeError"
  using assms
  by (simp add: perform_create_def data_get_def data_getlist_def get_object_or_404_def)

lemma perform_create_form_ok:
  assumes "objects_get (\<lambda>x. Some (cat_slug x) = qd_get d ''category'') (categories c) = Inr cat"
  shows "\<exists>t' c'. perform_create (QueryDict d) \<lparr>instance_obj = Some t, validated_data = vd\<rparr> c =
           Inr (t', c')"
proof -
  from assms have "objects_get
      (\<lambda>x. Some (JString (cat_slug x)) = data_get (QueryDict d) ''category'')
      (categories c) = Inr cat"
    by (simp add: data_get_def Some_JString_iff)
  then show ?thesis
    by (simp add: perform_create_def get_object_or_404_def data_getlist_def
        serializer_save_update Let_def)
qed

lemma perform_create_update_Inr:
  assumes "perform_create request_data \<lparr>instance_obj = Some t, validated_data = vd\<rparr> c = Inr (t', c')"
  shows "\<exists>d. request_data = QueryDict d \<and>
           (\<exists>cat \<in> set (categories c). Some (cat_slug cat) = qd_get d ''category'' \<and>
              title_category t' = Some (cat_id cat)) \<and>
           title_genre t' =
             map genre_id (filter (\<lambda>g. genre_slug g \<in> set (qd_getlist d ''genre'')) (genres c)) \<and>
           title_id t' = title_id t \<and>
           c' = c\<lparr>titles := map (\<lambda>x. if title_id x = title_id t then t' else x) (titles c)\<rparr>"
proof -
  let ?p = "\<lambda>x. Some (JString (cat_slug x)) = data_get request_data ''category''"
  from assms obtain cat where g: "objects_get ?p (categories c) = Inr cat"
    by (cases "objects_get ?p (categories c)")
      (auto simp: perform_create_def get_object_or_404_def split: exn.splits)
  from objects_get_Inr [OF g] have m: "cat \<in> set (categories c)" "?p cat" by simp_all
  from assms g obtain d where d: "request_data = QueryDict d"
    by (cases request_data)
      (auto simp: perform_create_def get_object_or_404_def data_getlist_def)
  from m(2) d have slug: "Some (cat_slug cat) = qd_get d ''category''"
    by (simp add: data_get_def Some_JString_iff)
  from assms g d have
    t': "t' = t\<lparr>title_name := (case tf_name vd of None \<Rightarrow> title_name t | Some v \<Rightarrow> v),
            title_year := (case tf_year vd of None \<Rightarrow> title_year t | Some v \<Rightarrow> v),
            title_description :=
              (case tf_description vd of None \<Rightarrow> title_description t | Some v \<Rightarrow> v),
            title_category := Some (cat_id cat),
            title_genre := map genre_id
              (filter (\<lambda>g. genre_slug g \<in> set (qd_getlist d ''genre'')) (genres c))\<rparr>"
    and c': "c' = c\<lparr>titles := map (\<lambda>x. if title_id x = title_id t then t' else x) (titles c)\<rparr>"
    by (auto simp: perform_create_def get_object_or_404_def data_getlist_def
        serializer_save_update Let_def)
  from t' have f: "title_category t' = Some (cat_id cat)"
    "title_genre t' =
       map genre_id (filter (\<lambda>g. genre_slug g \<in> set (qd_getlist d ''genre'')) (genres c))"
    "title_id t' = title_id t"
    by simp_all
  from d m(1) slug f c' show ?thesis by blast
qed

text \<open>
  Title update reuses the create path. A body without \<^verbatim>\<open>category\<close>, or one that names
  no existing category slug, fails with a 404. For a form-encoded body whose category
  is found the update succeeds, and a successful update sets the category to the named
  one and replaces the genres of the title by exactly the genres whose slugs are in
  the submitted \<^verbatim>\<open>genre\<close> list (none when the list is empty).
\<close>

lemma title_update_form_body:
  "((\<forall>x \<in> set (categories c).
       Some (JString (cat_slug x)) \<noteq> data_get request_data ''category'') \<longrightarrow>
      perform_update request_data serializer c = Inl Http404) \<and>
   (\<forall>cat. objects_get (\<lambda>x. Some (cat_slug x) = qd_get d ''category'') (categories c) = Inr cat \<longrightarrow>
      (\<exists>t' c'. perform_update (QueryDict d) \<lparr>instance_obj = Some t, validated_data = vd\<rparr> c =
           Inr (t', c'))) \<and>
   (\<forall>t' c'. perform_update (QueryDict d) \<lparr>instance_obj = Some t, validated_data = vd\<rparr> c =
        Inr (t', c') \<longrightarrow>
      (\<exists>cat \<in> set (categories c). Some (cat_slug cat) = qd_get d ''category'' \<and>
          title_category t' = Some (cat_id cat)) \<and>
      set (title_genre t') =
        genre_id ` {g \<in> set (genres c). genre_slug g \<in> set (qd_getlist d ''genre'')} \<and>
      title_id t' = title_id t \<and>
      titles c' = map (\<lambda>x. if title_id x = title_id t then t' else x) (titles c))"
proof (intro conjI impI allI)
  assume "\<forall>x \<in> set (categories c).
       Some (JString (cat_slug x)) \<noteq> data_get request_data ''category''"
  then show "perform_update request_data serializer c = Inl Http404"
    unfolding perform_update_def by (rule perform_create_no_category)
next
  fix cat
  assume "objects_get (\<lambda>x. Some (cat_slug x) = qd_get d ''category'') (categories c) = Inr cat"
  then show "\<exists>t' c'. perform_update (QueryDict d) \<lparr>instance_obj = Some t, validated_data = vd\<rparr> c =
           Inr (t', c')"
    unfolding perform_update_def by (rule perform_create_form_ok)
next
  fix t' c'
  assume "perform_update (QueryDict d) \<lparr>instance_obj = Some t, validated_data = vd\<rparr> c =
      Inr (t', c')"
  then have p: "perform_create (QueryDict d) \<lparr>instance_obj = Some t, validated_data = vd\<rparr> c =
      Inr (t', c')"
    by (simp add: perform_update_def)
  from perform_create_update_Inr [OF p]
  have r: "(\<exists>cat \<in> set (categories c). Some (cat_slug cat) = qd_get d ''category'' \<and>
              title_category t' = Some (cat_id cat)) \<and>
           title_genre t' =
             map genre_id (filter (\<lambda>g. genre_slug g \<in> set (qd_getlist d ''genre'')) (genres c)) \<and>
           title_id t' = title_id t \<and>
           c' = c\<lparr>titles := map (\<lambda>x. if title_id x = title_id t then t' else x) (titles c)\<rparr>"
    by simp
  from r show "\<exists>cat \<in> set (categories c). Some (cat_slug cat) = qd_get d ''category'' \<and>
          title_category t' = Some (cat_id cat)"
    by blast
  from r have "title_genre t' =
      map genre_id (filter (\<lambda>g. genre_slug g \<in> set (qd_getlist d ''genre'')) (genres c))"
    by blast
  then show "set (title_genre t') =
        genre_id ` {g \<in> set (genres c). genre_slug g \<in> set (qd_getlist d ''genre'')}"
    by simp
  from r show "title_id t' = title_id t" by blast
  from r have "c' = c\<lparr>titles := map (\<lambda>x. if title_id x = title_id t then t' else x) (titles c)\<rparr>"
    by blast
  then show "titles c' = map (\<lambda>x. if title_id x = title_id t then t' else x) (titles c)"
    by simp
qed

text \<open>
  C9: the claim asks that every PATCH of a title with an existing category replaces
  the genres by those named in the submitted list. For a JSON body \<^verbatim>\<open>request.data\<close> is a
  \<^verbatim>\<open>dict\<close>: once the category has been found, \<^verbatim>\<open>getlist\<close> raises \<^verbatim>\<open>AttributeError\<close>, the
  exception leaves the view and the title is not updated.
\<close>

theorem title_update_json_body_raises:
  assumes found: "objects_get (\<lambda>x. Some (JString (cat_slug x)) = d ''category'')
                    (categories c) = Inr cat"
  shows "perform_update (Dict d) serializer c = Inl AttributeError \<and>
         (\<forall>t vd. get_object_or_404 (\<lambda>t. title_id t = k) (titles c) = Inr t \<and>
                 is_valid t (Dict d) = Inr vd \<longrightarrow>
            partial_update is_valid k (Dict d) c = (Inl AttributeError, c))"
proof (intro conjI allI impI)
  from found show "perform_update (Dict d) serializer c = Inl AttributeError"
    unfolding perform_update_def by (rule perform_create_dict)
next
  fix t vd
  assume a: "get_object_or_404 (\<lambda>t. title_id t = k) (titles c) = Inr t \<and>
                 is_valid t (Dict d) = Inr vd"
  from found
  have "perform_update (Dict d) \<lparr>instance_obj = Some t, validated_data = vd\<rparr> c =
      Inl AttributeError"
    unfolding perform_update_def by (rule perform_create_dict)
  with a show "partial_update is_valid k (Dict d) c = (Inl AttributeError, c)"
    by (simp add: partial_update_def)
qed

theorem title_update_json_body_raises_witness:
  "partial_update
      (\<lambda>t b. Inr \<lparr>tf_name = None, tf_year = None, tf_description = None,
                   tf_category = None, tf_genre = None\<rparr>)
      1
      (Dict (\<lambda>k. if k = ''category'' then Some (JString [99])
                 else if k = ''genre'' then Some (JArray [[101]]) else None))
      \<lparr>categories = [\<lparr>cat_id = 1, cat_name = [67], cat_slug = [99]\<rparr>],
       genres = [\<lparr>genre_id = 1, genre_name = [68], genre_slug = [100]\<rparr>,
                 \<lparr>genre_id = 2, genre_name = [69], genre_slug = [101]\<rparr>],
       titles = [\<lparr>title_id = 1, title_name = [98], title_year = 1999,
           title_description = [], title_category = Some 1, title_genre = [1]\<rparr>]\<rparr> =
     (Inl AttributeError,
      \<lparr>categories = [\<lparr>cat_id = 1, cat_name = [67], cat_slug = [99]\<rparr>],
       genres = [\<lparr>genre_id = 1, genre_name = [68], genre_slug = [100]\<rparr>,
                 \<lparr>genre_id = 2, genre_name = [69], genre_slug = [101]\<rparr>],
       titles = [\<lparr>title_id = 1, title_name = [98], title_year = 1999,
           title_description = [], title_category = Some 1, title_genre = [1]\<rparr>]\<rparr>)"
proof -
  let ?d = "\<lambda>k. if k = ''category'' then Some (JString [99])
                 else if k = ''genre'' then Some (JArray [[101 :: nat]]) else None"
  let ?t = "\<lparr>title_id = 1, title_name = [98], title_year = 1999,
           title_description = [], title_category = Some 1, title_genre = [1]\<rparr>"
  let ?vd = "\<lparr>tf_name = None, tf_year = None, tf_description = None,
                   tf_category = None, tf_genre = None\<rparr>"
  let ?c = "\<lparr>categories = [\<lparr>cat_id = 1, cat_name = [67], cat_slug = [99]\<rparr>],
       genres = [\<lparr>genre_id = 1, genre_name = [68], genre_slug = [100]\<rparr>,
                 \<lparr>genre_id = 2, genre_name = [69], genre_slug = [101]\<rparr>],
       titles = [?t]\<rparr>"
  have found: "objects_get (\<lambda>x. Some (JString (cat_slug x)) = ?d ''category'') (categories ?c) =
      Inr \<lparr>cat_id = 1, cat_name = [67], cat_slug = [99]\<rparr>"
    by (simp add: objects_get_def)
  have title: "get_object_or_404 (\<lambda>t. title_id t = 1) (titles ?c) = Inr ?t"
    by (simp add: get_object_or_404_def objects_get_def)
  from title_update_json_body_raises [where d = ?d and c = ?c and k = 1
      and is_valid = "\<lambda>t b. Inr ?vd", OF found, THEN conjunct2] title
  show ?thesis by blast
qed

end
